theory Spec2Isabelle
  imports Main "HOL-Library.AList"
begin

section \<open>Values, errors and the environment of a run\<close>

text \<open>
  The ingestion script \<^verbatim>\<open>ingest/ingest_excel_to_duckdb.py\<close> and the pipeline functions of
  \<^verbatim>\<open>airflow/utils/pipeline_functions.py\<close> work on the file system, the clock, a random
  source, an object store and DuckDB database files. All of that is one explicit
  \<open>world\<close> value that every function takes and returns; a Python exception is the
  \<open>Inl\<close> branch of the result, paired with the world as the statements executed so far
  have left it.
\<close>

type_synonym path = string

record datetime =
  year :: nat
  month :: nat
  day :: nat
  hour :: nat
  minute :: nat
  second :: nat
  microsecond :: nat

datatype error =
    FileNotFoundError string
  | ValueError string
  | RuntimeError string
  | FileExistsError
  | ExcelReadError
  | IOException
  | CatalogException
  | BinderException
  | S3UploadFailedError
  | SystemExit nat
  | CalledProcessError nat

text \<open>
  A pandas DataFrame: the column labels in order and the rows, each row holding one cell
  per column. \<open>Null\<close> is pandas' missing value (NaN / None / NaT).
\<close>

datatype cell = Null | Str string | Num int | Stamp datetime

record dataframe =
  columns :: "string list"
  rows :: "cell list list"

datatype entry = Dir | Excel dataframe | Parquet dataframe | Other

text \<open>
  A DuckDB database: its schemas and its tables, keyed by schema and table name. Table
  names are plain identifiers in one spelling; quoting and case folding of SQL identifiers
  are outside the model. A database file that cannot be opened is \<open>Unreachable\<close>.
\<close>

record db =
  schemas :: "string set"
  tables :: "string \<times> string \<Rightarrow> dataframe option"

datatype store = Unreachable | Database db

text \<open>The lines \<open>load_to_duckdb\<close> prints, with the values they carry.\<close>

datatype message =
    Recreated string
  | Created_new string
  | Appended string
  | Total_records string nat

record world =
  clock :: "nat \<Rightarrow> datetime"
  ticks :: nat
  uuid_ints :: "nat \<Rightarrow> nat"
  draws :: nat
  fs :: "(path \<times> entry) list"
  fnmatch :: "string \<Rightarrow> string \<Rightarrow> bool"
  boto3 :: bool
  s3_accepts :: "string \<Rightarrow> bool"
  s3 :: "((string \<times> string) \<times> entry) list"
  stores :: "path \<Rightarrow> store"
  stdout :: "message list"
  environ :: "(string \<times> string) list"
  thresholds :: "(string \<times> nat) list"
  project_root :: path

text \<open>\<open>datetime.now()\<close> and \<open>uuid.uuid4()\<close> read the next value of their source.\<close>

definition now :: "world \<Rightarrow> datetime \<times> world" where
  "now w = (clock w (ticks w), w\<lparr>ticks := Suc (ticks w)\<rparr>)"

definition uuid4 :: "world \<Rightarrow> nat \<times> world" where
  "uuid4 w = (uuid_ints w (draws w) mod 2 ^ 128, w\<lparr>draws := Suc (draws w)\<rparr>)"

subsection \<open>Paths\<close>

definition name_of :: "path \<Rightarrow> string" where
  "name_of p = rev (takeWhile (\<lambda>c. c \<noteq> CHR ''/'') (rev p))"

definition parent_of :: "path \<Rightarrow> path" where
  "parent_of p = rev (drop 1 (dropWhile (\<lambda>c. c \<noteq> CHR ''/'') (rev p)))"

definition join :: "path \<Rightarrow> string \<Rightarrow> path" where
  "join d n = d @ ''/'' @ n"

definition exists :: "world \<Rightarrow> path \<Rightarrow> bool" where
  "exists w p = (map_of (fs w) p \<noteq> None)"

text \<open>
  \<open>Path.glob\<close>: the entries of the directory whose name matches the pattern, in the
  order the file system lists them. The matching of a name against a pattern is pathlib's
  and is a parameter of the world.
\<close>

definition glob :: "world \<Rightarrow> path \<Rightarrow> string \<Rightarrow> path list" where
  "glob w d pat =
     filter (\<lambda>p. parent_of p = d \<and> fnmatch w (name_of p) pat) (map fst (fs w))"

subsection \<open>pandas\<close>

definition read_excel :: "world \<Rightarrow> path \<Rightarrow> error + dataframe" where
  "read_excel w p =
     (case map_of (fs w) p of
        None \<Rightarrow> Inl (FileNotFoundError p)
      | Some (Excel df) \<Rightarrow> Inr df
      | Some _ \<Rightarrow> Inl ExcelReadError)"

text \<open>\<open>df[c] = v\<close> with a scalar: overwrite the column if it is there, else add it last.\<close>

definition set_column :: "string \<Rightarrow> cell \<Rightarrow> dataframe \<Rightarrow> dataframe" where
  "set_column c v df =
     (if c \<in> set (columns df)
      then df\<lparr>rows := map (\<lambda>r. map (\<lambda>(k, x). if k = c then v else x) (zip (columns df) r))
                         (rows df)\<rparr>
      else df\<lparr>columns := columns df @ [c], rows := map (\<lambda>r. r @ [v]) (rows df)\<rparr>)"

definition cell_at :: "string list \<Rightarrow> cell list \<Rightarrow> string \<Rightarrow> cell" where
  "cell_at cols r c = (case map_of (zip cols r) c of Some x \<Rightarrow> x | None \<Rightarrow> Null)"

text \<open>
  \<open>pd.concat(dfs, ignore_index=True)\<close>: the outer join of the columns, in order of first
  appearance, every frame's rows re-indexed to them with \<open>Null\<close> where the frame has no
  such column. pandas raises on an empty list.
\<close>

definition union_columns :: "dataframe list \<Rightarrow> string list" where
  "union_columns dfs = rev (remdups (rev (concat (map columns dfs))))"

definition reindex :: "string list \<Rightarrow> dataframe \<Rightarrow> cell list list" where
  "reindex cols df = map (\<lambda>r. map (cell_at (columns df) r) cols) (rows df)"

definition pd_concat :: "dataframe list \<Rightarrow> error + dataframe" where
  "pd_concat dfs =
     (if dfs = [] then Inl (ValueError ''No objects to concatenate'')
      else Inr \<lparr>columns = union_columns dfs,
                rows = concat (map (reindex (union_columns dfs)) dfs)\<rparr>)"

section \<open>SourceLoader: \<open>load_excel_files\<close>\<close>

text \<open>\<open>v or dflt\<close> and \<open>get(key, dflt)\<close> on an optional value.\<close>

definition or_default :: "'a option \<Rightarrow> 'a \<Rightarrow> 'a" where
  "or_default v dflt = (case v of Some x \<Rightarrow> x | None \<Rightarrow> dflt)"

text \<open>Python's truth value of an optional string argument: \<open>None\<close> and \<open>''\<close> are false.\<close>

fun given :: "string option \<Rightarrow> string option" where
  "given None = None"
| "given (Some []) = None"
| "given (Some (c # cs)) = Some (c # cs)"

definition stamp :: "string \<Rightarrow> datetime \<Rightarrow> dataframe \<Rightarrow> dataframe" where
  "stamp file_name t df =
     set_column ''_ingestion_timestamp'' (Stamp t) (set_column ''_source_file'' (Str file_name) df)"

text \<open>The loop over the files of the directory.\<close>

fun read_all :: "path list \<Rightarrow> world \<Rightarrow> (error + dataframe list) \<times> world" where
  "read_all [] w = (Inr [], w)"
| "read_all (file_path # ps) w =
     (case read_excel w file_path of
        Inl e \<Rightarrow> (Inl e, w)
      | Inr df \<Rightarrow>
          (case now w of (t, w1) \<Rightarrow>
             (case read_all ps w1 of
                (Inl e, w2) \<Rightarrow> (Inl e, w2)
              | (Inr dfs, w2) \<Rightarrow> (Inr (stamp (name_of file_path) t df # dfs), w2))))"

definition combine :: "dataframe list \<Rightarrow> error + dataframe" where
  "combine dfs = (case dfs of [df] \<Rightarrow> Inr df | _ \<Rightarrow> pd_concat dfs)"

definition load_excel_files ::
  "string option \<Rightarrow> string option \<Rightarrow> string option \<Rightarrow> world \<Rightarrow> (error + dataframe) \<times> world"
where
  "load_excel_files excel_path excel_dir excel_pattern w =
     (case given excel_path of
        Some p \<Rightarrow>
          (if \<not> exists w p then (Inl (FileNotFoundError (''Excel file not found: '' @ p)), w)
           else (case read_excel w p of
                   Inl e \<Rightarrow> (Inl e, w)
                 | Inr df \<Rightarrow> (case now w of (t, w1) \<Rightarrow> (combine [stamp (name_of p) t df], w1))))
      | None \<Rightarrow>
          (case given excel_dir of
             Some d \<Rightarrow>
               (if \<not> exists w d
                then (Inl (FileNotFoundError (''Excel directory not found: '' @ d)), w)
                else (let excel_files =
                            (case given excel_pattern of
                               Some pat \<Rightarrow> glob w d pat
                             | None \<Rightarrow> glob w d ''*.xlsx'' @ glob w d ''*.xls'')
                      in if excel_files = []
                         then (Inl (FileNotFoundError
                                      (''No Excel files found in: '' @ d @ '' with pattern: '' @
                                       or_default (given excel_pattern) ''*.xlsx, *.xls'')), w)
                         else (case read_all excel_files w of
                                 (Inl e, w1) \<Rightarrow> (Inl e, w1)
                               | (Inr dfs, w1) \<Rightarrow> (combine dfs, w1))))
           | None \<Rightarrow> (Inl (ValueError ''Either --excel or --excel_dir must be specified''), w)))"

section \<open>SnapshotWriter: \<open>write_parquet_with_metadata\<close>\<close>

text \<open>
  \<open>strftime("%Y%m%d_%H%M%S")\<close>: zero-padded decimal fields. The digits are exact for the
  values a Python \<open>datetime\<close> holds with a four-digit year (\<open>valid_datetime\<close>).
\<close>

definition digit :: "nat \<Rightarrow> char" where
  "digit n = ''0123456789'' ! (n mod 10)"

definition pad2 :: "nat \<Rightarrow> string" where
  "pad2 n = [digit (n div 10), digit n]"

definition pad4 :: "nat \<Rightarrow> string" where
  "pad4 n = [digit (n div 1000), digit (n div 100), digit (n div 10), digit n]"

definition strftime :: "datetime \<Rightarrow> string" where
  "strftime t =
     pad4 (year t) @ pad2 (month t) @ pad2 (day t) @ ''_'' @
     pad2 (hour t) @ pad2 (minute t) @ pad2 (second t)"

definition valid_datetime :: "datetime \<Rightarrow> bool" where
  "valid_datetime t =
     (1000 \<le> year t \<and> year t \<le> 9999 \<and> 1 \<le> month t \<and> month t \<le> 12 \<and> 1 \<le> day t \<and> day t \<le> 31 \<and>
      hour t < 24 \<and> minute t < 60 \<and> second t < 60 \<and> microsecond t < 1000000)"

text \<open>\<open>UUID.hex\<close> is \<open>'%032x' % self.int\<close>: the 32 lower-case hex digits of the 128-bit value.\<close>

definition hexdigit :: "nat \<Rightarrow> char" where
  "hexdigit n = ''0123456789abcdef'' ! (n mod 16)"

definition hex :: "nat \<Rightarrow> string" where
  "hex u = map (\<lambda>i. hexdigit (u div 16 ^ (31 - i))) [0..<32]"

definition parquet_filename :: "string \<Rightarrow> string \<Rightarrow> datetime \<Rightarrow> nat \<Rightarrow> string" where
  "parquet_filename table_name mode t u =
     table_name @ ''_'' @ mode @ ''_'' @ strftime t @ ''_'' @ take 8 (hex u) @ ''.parquet''"

text \<open>\<open>raw_dir.mkdir(parents=True, exist_ok=True)\<close>\<close>

definition mkdir :: "path \<Rightarrow> world \<Rightarrow> (error + unit) \<times> world" where
  "mkdir d w =
     (case map_of (fs w) d of
        None \<Rightarrow> (Inr (), w\<lparr>fs := fs w @ [(d, Dir)]\<rparr>)
      | Some Dir \<Rightarrow> (Inr (), w)
      | Some _ \<Rightarrow> (Inl FileExistsError, w))"

text \<open>
  Both branches of the source (pyarrow, or DuckDB's \<open>COPY\<close> when pyarrow is missing) write
  the frame as one Parquet file at \<open>parquet_path\<close>, replacing a file that is already there.
\<close>

definition write_parquet_with_metadata ::
  "dataframe \<Rightarrow> path \<Rightarrow> string \<Rightarrow> string \<Rightarrow> world \<Rightarrow> (error + path) \<times> world"
where
  "write_parquet_with_metadata df raw_dir table_name mode w =
     (case mkdir raw_dir w of
        (Inl e, w1) \<Rightarrow> (Inl e, w1)
      | (Inr _, w1) \<Rightarrow>
          (case now w1 of (t, w2) \<Rightarrow>
             (case uuid4 w2 of (u, w3) \<Rightarrow>
                (let parquet_path = join raw_dir (parquet_filename table_name mode t u)
                 in (Inr parquet_path,
                     w3\<lparr>fs := AList.update parquet_path (Parquet df) (fs w3)\<rparr>)))))"

section \<open>Mirror upload: \<open>upload_to_s3\<close>\<close>

definition rstrip_slash :: "string \<Rightarrow> string" where
  "rstrip_slash s = rev (dropWhile (\<lambda>c. c = CHR ''/'') (rev s))"

definition upload_to_s3 :: "path \<Rightarrow> string \<Rightarrow> string \<Rightarrow> world \<Rightarrow> (error + unit) \<times> world" where
  "upload_to_s3 parquet_path s3_bucket s3_prefix w =
     (if \<not> boto3 w
      then (Inl (RuntimeError ''boto3 not installed. Install boto3 or remove --prod''), w)
      else if s3_bucket = []
      then (Inl (ValueError ''Missing --s3_bucket (or env RAW_S3_BUCKET) for --prod''), w)
      else (let s3_key = rstrip_slash s3_prefix @ ''/'' @ name_of parquet_path
            in (case map_of (fs w) parquet_path of
                  None \<Rightarrow> (Inl (FileNotFoundError parquet_path), w)
                | Some f \<Rightarrow>
                    (if s3_accepts w s3_bucket
                     then (Inr (), w\<lparr>s3 := AList.update (s3_bucket, s3_key) f (s3 w)\<rparr>)
                     else (Inl S3UploadFailedError, w)))))"

section \<open>LayerLoader: \<open>load_to_duckdb\<close>\<close>

text \<open>
  The DuckDB statements the source executes. Every \<open>con.execute\<close> is its own committed
  transaction, so a statement that raises leaves the effects of the statements before it.
\<close>

definition connect :: "world \<Rightarrow> path \<Rightarrow> error + db" where
  "connect w p = (case stores w p of Unreachable \<Rightarrow> Inl IOException | Database d \<Rightarrow> Inr d)"

definition commit :: "path \<Rightarrow> db \<Rightarrow> world \<Rightarrow> world" where
  "commit p d w = w\<lparr>stores := (stores w)(p := Database d)\<rparr>"

definition read_parquet :: "world \<Rightarrow> path \<Rightarrow> error + dataframe" where
  "read_parquet w p =
     (case map_of (fs w) p of Some (Parquet df) \<Rightarrow> Inr df | _ \<Rightarrow> Inl IOException)"

definition create_schema :: "string \<Rightarrow> db \<Rightarrow> db" where
  "create_schema s d = d\<lparr>schemas := insert s (schemas d)\<rparr>"

definition drop_table_if_exists :: "string \<times> string \<Rightarrow> db \<Rightarrow> db" where
  "drop_table_if_exists k d = d\<lparr>tables := (tables d)(k := None)\<rparr>"

definition create_table_as :: "string \<times> string \<Rightarrow> error + dataframe \<Rightarrow> db \<Rightarrow> error + db" where
  "create_table_as k src d =
     (case src of
        Inl e \<Rightarrow> Inl e
      | Inr df \<Rightarrow>
          (if fst k \<notin> schemas d \<or> tables d k \<noteq> None then Inl CatalogException
           else Inr (d\<lparr>tables := (tables d)(k \<mapsto> df)\<rparr>)))"

definition insert_into :: "string \<times> string \<Rightarrow> error + dataframe \<Rightarrow> db \<Rightarrow> error + db" where
  "insert_into k src d =
     (case tables d k of
        None \<Rightarrow> Inl CatalogException
      | Some t \<Rightarrow>
          (case src of
             Inl e \<Rightarrow> Inl e
           | Inr df \<Rightarrow>
               (if length (columns df) \<noteq> length (columns t) then Inl BinderException
                else Inr (d\<lparr>tables := (tables d)(k \<mapsto> t\<lparr>rows := rows t @ rows df\<rparr>)\<rparr>))))"

definition table_exists :: "string \<Rightarrow> string \<Rightarrow> db \<Rightarrow> bool" where
  "table_exists s t d = (tables d (s, t) \<noteq> None)"

definition count_rows :: "string \<times> string \<Rightarrow> db \<Rightarrow> error + nat" where
  "count_rows k d = (case tables d k of None \<Rightarrow> Inl CatalogException | Some t \<Rightarrow> Inr (length (rows t)))"

text \<open>The branch on the mode, with the line each branch prints.\<close>

definition apply_mode ::
  "string \<Rightarrow> string \<Rightarrow> error + dataframe \<Rightarrow> db \<Rightarrow> (error + message list) \<times> db"
where
  "apply_mode mode table_name src d =
     (if mode = ''full_refresh'' then
        (let d1 = drop_table_if_exists (''raw'', table_name) d
         in (case create_table_as (''raw'', table_name) src d1 of
               Inl e \<Rightarrow> (Inl e, d1)
             | Inr d2 \<Rightarrow> (Inr [Recreated table_name], d2)))
      else if mode = ''incremental'' then
        (if \<not> table_exists ''raw'' table_name d then
           (case create_table_as (''raw'', table_name) src d of
              Inl e \<Rightarrow> (Inl e, d)
            | Inr d1 \<Rightarrow> (Inr [Created_new table_name], d1))
         else
           (case insert_into (''raw'', table_name) src d of
              Inl e \<Rightarrow> (Inl e, d)
            | Inr d1 \<Rightarrow> (Inr [Appended table_name], d1)))
      else (Inr [], d))"

text \<open>
  \<open>load_to_duckdb\<close> has no \<open>return\<close> statement: its value is Python's \<open>None\<close>, which is
  the \<open>None\<close> of the result type here. The final count is queried and printed.
\<close>

definition load_to_duckdb ::
  "path \<Rightarrow> path \<Rightarrow> string \<Rightarrow> string \<Rightarrow> world \<Rightarrow> (error + nat option) \<times> world"
where
  "load_to_duckdb parquet_path db_path table_name mode w =
     (case connect w db_path of
        Inl e \<Rightarrow> (Inl e, w)
      | Inr con \<Rightarrow>
          (case apply_mode mode table_name (read_parquet w parquet_path) (create_schema ''raw'' con) of
             (Inl e, d) \<Rightarrow> (Inl e, commit db_path d w)
           | (Inr out, d) \<Rightarrow>
               (case count_rows (''raw'', table_name) d of
                  Inl e \<Rightarrow> (Inl e, commit db_path d (w\<lparr>stdout := stdout w @ out\<rparr>))
                | Inr count \<Rightarrow>
                    (Inr None,
                     commit db_path d
                       (w\<lparr>stdout := stdout w @ out @ [Total_records table_name count]\<rparr>)))))"

text \<open>What an observer of the store sees: the rows of a RAW table, if it is there.\<close>

definition raw_table :: "world \<Rightarrow> path \<Rightarrow> string \<Rightarrow> dataframe option" where
  "raw_table w db_path table_name =
     (case stores w db_path of Unreachable \<Rightarrow> None | Database d \<Rightarrow> tables d (''raw'', table_name))"

definition raw_count :: "world \<Rightarrow> path \<Rightarrow> string \<Rightarrow> nat option" where
  "raw_count w db_path table_name = map_option (\<lambda>t. length (rows t)) (raw_table w db_path table_name)"

section \<open>The ingestion script\<close>

text \<open>
  The parsed arguments (\<open>args\<close> in the source) and the options as the command line gives
  them. \<open>parse_args\<close> is argparse with the script's declarations: \<open>--duckdb\<close> is required,
  \<open>--mode\<close> has two choices, and the defaults of the S3 options come from the environment.
\<close>

record args =
  arg_excel :: "string option"
  arg_excel_dir :: "string option"
  arg_excel_pattern :: "string option"
  arg_duckdb :: path
  arg_raw_dir :: path
  arg_table :: string
  arg_mode :: string
  arg_prod :: bool
  arg_s3_bucket :: string
  arg_s3_prefix :: string

record cmdline =
  opt_excel :: "string option"
  opt_excel_dir :: "string option"
  opt_excel_pattern :: "string option"
  opt_duckdb :: "string option"
  opt_raw_dir :: "string option"
  opt_table :: "string option"
  opt_mode :: "string option"
  opt_prod :: bool
  opt_s3_bucket :: "string option"
  opt_s3_prefix :: "string option"

definition getenv :: "world \<Rightarrow> string \<Rightarrow> string option" where
  "getenv w k = map_of (environ w) k"

definition parse_args :: "world \<Rightarrow> cmdline \<Rightarrow> error + args" where
  "parse_args w c =
     (case opt_duckdb c of
        None \<Rightarrow> Inl (SystemExit 2)
      | Some db_file \<Rightarrow>
          (if or_default (opt_mode c) ''full_refresh'' \<notin> {''full_refresh'', ''incremental''}
           then Inl (SystemExit 2)
           else Inr \<lparr>arg_excel = opt_excel c,
                     arg_excel_dir = opt_excel_dir c,
                     arg_excel_pattern = opt_excel_pattern c,
                     arg_duckdb = db_file,
                     arg_raw_dir = or_default (opt_raw_dir c) ''raw_data'',
                     arg_table = or_default (opt_table c) ''raw_loans'',
                     arg_mode = or_default (opt_mode c) ''full_refresh'',
                     arg_prod = opt_prod c,
                     arg_s3_bucket =
                       or_default (opt_s3_bucket c) (or_default (getenv w ''RAW_S3_BUCKET'') []),
                     arg_s3_prefix =
                       or_default (opt_s3_prefix c)
                         (or_default (getenv w ''RAW_S3_PREFIX'') ''raw/loans'')\<rparr>))"

text \<open>The main execution: the four numbered steps at the end of the script.\<close>

definition main :: "args \<Rightarrow> world \<Rightarrow> (error + unit) \<times> world" where
  "main a w =
     (case load_excel_files (arg_excel a) (arg_excel_dir a) (arg_excel_pattern a) w of
        (Inl e, w1) \<Rightarrow> (Inl e, w1)
      | (Inr df, w1) \<Rightarrow>
          (case write_parquet_with_metadata df (arg_raw_dir a) (arg_table a) (arg_mode a) w1 of
             (Inl e, w2) \<Rightarrow> (Inl e, w2)
           | (Inr parquet_path, w2) \<Rightarrow>
               (case (if arg_prod a
                      then upload_to_s3 parquet_path (arg_s3_bucket a) (arg_s3_prefix a) w2
                      else (Inr (), w2)) of
                  (Inl e, w3) \<Rightarrow> (Inl e, w3)
                | (Inr _, w3) \<Rightarrow>
                    (case load_to_duckdb parquet_path (arg_duckdb a) (arg_table a) (arg_mode a) w3 of
                       (Inl e, w4) \<Rightarrow> (Inl e, w4)
                     | (Inr _, w4) \<Rightarrow> (Inr (), w4)))))"

definition ingest_script :: "cmdline \<Rightarrow> world \<Rightarrow> (error + unit) \<times> world" where
  "ingest_script c w = (case parse_args w c of Inl e \<Rightarrow> (Inl e, w) | Inr a \<Rightarrow> main a w)"

section \<open>The pipeline functions\<close>

record project_paths =
  excel_path :: path
  excel_dir :: path
  duckdb_path :: path
  raw_dir :: path
  dbt_dir :: path

definition get_project_paths :: "world \<Rightarrow> project_paths" where
  "get_project_paths w =
     \<lparr>excel_path = join (join (project_root w) ''data'') ''Data Engineer Challenge.xlsx'',
      excel_dir = join (project_root w) ''data'',
      duckdb_path = join (join (project_root w) ''dbt'') ''data_challenge.duckdb'',
      raw_dir = join (project_root w) ''raw_data'',
      dbt_dir = join (project_root w) ''dbt''\<rparr>"

text \<open>
  The exit status of the script as \<open>subprocess.run(..., check=True)\<close> sees it: an uncaught
  exception ends the interpreter with status 1, \<open>SystemExit n\<close> with status \<open>n\<close>.
\<close>

fun returncode :: "error \<Rightarrow> nat" where
  "returncode (SystemExit n) = n"
| "returncode _ = 1"

text \<open>The command line \<open>run_ingestion\<close> builds (\<open>cmd\<close>), and the call of the script with it.\<close>

definition ingestion_cmd :: "string option \<Rightarrow> world \<Rightarrow> cmdline" where
  "ingestion_cmd params_mode w =
     (let paths = get_project_paths w;
          ingestion_mode =
            or_default params_mode (or_default (getenv w ''INGESTION_MODE'') ''full_refresh'');
          cmd = \<lparr>opt_excel = None, opt_excel_dir = None, opt_excel_pattern = None,
                 opt_duckdb = Some (duckdb_path paths), opt_raw_dir = Some (raw_dir paths),
                 opt_table = None, opt_mode = Some ingestion_mode, opt_prod = False,
                 opt_s3_bucket = None, opt_s3_prefix = None\<rparr>;
          cmd1 = (if ingestion_mode = ''incremental''
                  then cmd\<lparr>opt_excel_dir := Some (excel_dir paths)\<rparr>
                  else cmd\<lparr>opt_excel := Some (excel_path paths)\<rparr>)
      in (if getenv w ''ENVIRONMENT'' = Some ''production''
          then (case given (getenv w ''RAW_S3_BUCKET'') of
                  Some s3_bucket \<Rightarrow>
                    cmd1\<lparr>opt_prod := True, opt_s3_bucket := Some s3_bucket,
                         opt_s3_prefix :=
                           Some (or_default (getenv w ''RAW_S3_PREFIX'') ''raw/loans'')\<rparr>
                | None \<Rightarrow> cmd1)
          else cmd1))"

definition run_ingestion :: "string option \<Rightarrow> world \<Rightarrow> (error + bool) \<times> world" where
  "run_ingestion params_mode w =
     (case ingest_script (ingestion_cmd params_mode w) w of
        (Inl e, w1) \<Rightarrow> (Inl (CalledProcessError (returncode e)), w1)
      | (Inr _, w1) \<Rightarrow> (Inr True, w1))"

section \<open>QualityGate: \<open>validate_data_quality\<close>\<close>

text \<open>\<open>DATA_QUALITY_THRESHOLDS\<close> of \<^verbatim>\<open>airflow/utils/config.py\<close>.\<close>

definition DATA_QUALITY_THRESHOLDS :: "(string \<times> nat) list" where
  "DATA_QUALITY_THRESHOLDS =
     [(''min_raw_rows'', 1), (''min_silver_rows'', 1), (''min_gold_rows'', 1),
      (''max_duplicate_loan_ids'', 0)]"


text \<open>
  The vocabulary of the specification: the three layers with their canonical tables, the
  failure \<open>EmptyLayer\<close> (the \<open>ValueError\<close> the gate raises for the layer), and the
  minimum a threshold table configures for a layer.
\<close>

datatype layer = RAW | SILVER | GOLD


fun EmptyLayer :: "layer \<Rightarrow> error" where
  "EmptyLayer RAW = ValueError ''RAW layer is empty''"
| "EmptyLayer SILVER = ValueError ''SILVER layer is empty''"
| "EmptyLayer GOLD = ValueError ''GOLD layer is empty''"



section \<open>The vocabulary of the properties\<close>

subsection \<open>Frames as rows of named cells\<close>

text \<open>
  The rows of a frame read by column name: a row is a function from column names to cells,
  \<open>Null\<close> at a name the frame has no column for. A frame is rectangular when every row
  has one cell per column, as every pandas DataFrame is.
\<close>

definition cells_of :: "dataframe \<Rightarrow> (string \<Rightarrow> cell) list" where
  "cells_of df = map (cell_at (columns df)) (rows df)"

definition rectangular :: "dataframe \<Rightarrow> bool" where
  "rectangular df = (\<forall>r\<in>set (rows df). length r = length (columns df))"

definition frames_ok :: "world \<Rightarrow> bool" where
  "frames_ok w = list_all (\<lambda>(p, e). case e of Excel df \<Rightarrow> rectangular df | _ \<Rightarrow> True) (fs w)"

text \<open>The files \<open>load_excel_files\<close> reads, in the order it reads them.\<close>

definition source_files ::
  "string option \<Rightarrow> string option \<Rightarrow> string option \<Rightarrow> world \<Rightarrow> path list"
where
  "source_files xp xd pat w =
     (case given xp of
        Some p \<Rightarrow> [p]
      | None \<Rightarrow>
          (case given xd of
             Some d \<Rightarrow> (case given pat of
                          Some q \<Rightarrow> glob w d q
                        | None \<Rightarrow> glob w d ''*.xlsx'' @ glob w d ''*.xls'')
           | None \<Rightarrow> []))"

text \<open>
  The unified table in the words of the specification: the rows of every file in file
  order, each row carrying its file's name and ingestion time, its own cells in the
  columns its file has, and \<open>Null\<close> in every other column.
\<close>

definition unified_row :: "string \<Rightarrow> datetime \<Rightarrow> dataframe \<Rightarrow> cell list \<Rightarrow> string \<Rightarrow> cell" where
  "unified_row n t df r c =
     (if c = ''_ingestion_timestamp'' then Stamp t
      else if c = ''_source_file'' then Str n
      else if c \<in> set (columns df) then cell_at (columns df) r c
      else Null)"

definition unified_rows :: "(path \<times> datetime \<times> dataframe) list \<Rightarrow> (string \<Rightarrow> cell) list" where
  "unified_rows files =
     concat (map (\<lambda>(p, t, df). map (unified_row (name_of p) t df) (rows df)) files)"

text \<open>The file system after \<open>mkdir\<close> of a directory: the directory is listed last if it is new.\<close>

definition with_dir :: "path \<Rightarrow> (path \<times> entry) list \<Rightarrow> (path \<times> entry) list" where
  "with_dir d al = (if map_of al d = None then al @ [(d, Dir)] else al)"



text \<open>Two readings of the clock that \<open>strftime\<close> cannot tell apart.\<close>

definition same_second :: "datetime \<Rightarrow> datetime \<Rightarrow> bool" where
  "same_second t t' =
     (year t = year t' \<and> month t = month t' \<and> day t = day t' \<and>
      hour t = hour t' \<and> minute t = minute t' \<and> second t = second t')"

text \<open>The bucket the script uploads to: the \<open>--s3_bucket\<close> flag, else the environment, else empty.\<close>

definition resolved_bucket :: "world \<Rightarrow> cmdline \<Rightarrow> string" where
  "resolved_bucket w c = or_default (opt_s3_bucket c) (or_default (getenv w ''RAW_S3_BUCKET'') [])"

section \<open>A concrete world\<close>

text \<open>
  A small installation used to evaluate the functions: a data directory with two workbooks,
  the second without the \<open>Purpose\<close> column, and one workbook beside it. Its pattern matcher
  reads a leading \<open>*\<close> as any prefix. All readings of the clock fall into one second.
\<close>

definition star_match :: "string \<Rightarrow> string \<Rightarrow> bool" where
  "star_match n pat =
     (case pat of
        c # suf \<Rightarrow>
          if c = CHR ''*'' then length suf \<le> length n \<and> drop (length n - length suf) n = suf
          else n = pat
      | [] \<Rightarrow> n = pat)"

definition loans_a :: dataframe where
  "loans_a = \<lparr>columns = [''loan_id'', ''Purpose''],
              rows = [[Num 1, Str ''car''], [Num 2, Str ''home'']]\<rparr>"

definition loans_b :: dataframe where
  "loans_b = \<lparr>columns = [''loan_id''], rows = [[Num 3]]\<rparr>"

definition loans_c :: dataframe where
  "loans_c = \<lparr>columns = [''loan_id''], rows = [[Num 4], [Num 5]]\<rparr>"

definition loans_d :: dataframe where
  "loans_d = \<lparr>columns = [''loan_id'', ''Purpose''], rows = [[Num 9, Str ''boat'']]\<rparr>"

definition empty_db :: db where
  "empty_db = \<lparr>schemas = {}, tables = (\<lambda>k. None)\<rparr>"

definition example_world :: world where
  "example_world =
     \<lparr>clock = (\<lambda>n. \<lparr>year = 2025, month = 3, day = 9, hour = 14, minute = 5, second = 7,
                     microsecond = n\<rparr>),
      ticks = 0,
      uuid_ints = (\<lambda>n. 0x1a2b3c4d000040008000000000000000 + n),
      draws = 0,
      fs = [(''data'', Dir), (''data/a.xlsx'', Excel loans_a), (''data/b.xlsx'', Excel loans_b),
            (''one.xlsx'', Excel loans_b), (''two.xlsx'', Excel loans_c)],
      fnmatch = star_match,
      boto3 = True,
      s3_accepts = (\<lambda>b. b = ''bucket''),
      s3 = [],
      stores = (\<lambda>p. Database empty_db),
      stdout = [],
      environ = [],
      thresholds = DATA_QUALITY_THRESHOLDS,
      project_root = ''/repo''\<rparr>"

definition example_unified :: dataframe where
  "example_unified =
     \<lparr>columns = [''loan_id'', ''Purpose'', ''_source_file'', ''_ingestion_timestamp''],
      rows = [[Num 1, Str ''car'', Str ''a.xlsx'', Stamp (clock example_world 0)],
              [Num 2, Str ''home'', Str ''a.xlsx'', Stamp (clock example_world 0)],
              [Num 3, Null, Str ''b.xlsx'', Stamp (clock example_world 1)]]\<rparr>"

definition example_args :: args where
  "example_args =
     \<lparr>arg_excel = Some ''one.xlsx'', arg_excel_dir = None, arg_excel_pattern = None,
      arg_duckdb = ''db.duckdb'', arg_raw_dir = ''raw_data'', arg_table = ''raw_loans'',
      arg_mode = ''full_refresh'', arg_prod = False, arg_s3_bucket = [],
      arg_s3_prefix = ''raw/loans''\<rparr>"

definition incremental_args :: "string \<Rightarrow> args" where
  "incremental_args file = example_args\<lparr>arg_excel := Some file, arg_mode := ''incremental''\<rparr>"

text \<open>
  The same installation with a stocked store: the three canonical tables hold two rows
  each, the snapshot directory holds one readable snapshot and one file that is no Parquet
  file, and the database file \<open>locked.duckdb\<close> cannot be opened.
\<close>

definition stocked_db :: db where
  "stocked_db =
     \<lparr>schemas = {''raw'', ''silver'', ''gold''},
      tables = [(''raw'', ''raw_loans'') \<mapsto> loans_a, (''silver'', ''silver_loans'') \<mapsto> loans_a,
                (''gold'', ''fact_loan'') \<mapsto> loans_a]\<rparr>"

definition stocked_world :: world where
  "stocked_world =
     example_world
       \<lparr>fs := fs example_world @
               [(''raw_data'', Dir), (''raw_data/good.parquet'', Parquet loans_d),
                (''raw_data/bad.parquet'', Other)],
        stores := (\<lambda>p. if p = ''locked.duckdb'' then Unreachable else Database stocked_db)\<rparr>"





text \<open>
  The project checked out at \<open>/repo\<close> and run in production, without a bucket in the
  environment and with a bucket that the object store does not accept; and a command line
  that asks for the upload without naming a bucket.
\<close>

definition prod_world :: world where
  "prod_world =
     example_world
       \<lparr>fs := [(''/repo/data'', Dir),
               (''/repo/data/Data Engineer Challenge.xlsx'', Excel loans_a)],
        environ := [(''ENVIRONMENT'', ''production'')]\<rparr>"

definition prod_world_bucket :: "string \<Rightarrow> world" where
  "prod_world_bucket b =
     prod_world\<lparr>environ := [(''ENVIRONMENT'', ''production''), (''RAW_S3_BUCKET'', b)]\<rparr>"

definition publish_cmd :: cmdline where
  "publish_cmd =
     \<lparr>opt_excel = Some ''one.xlsx'', opt_excel_dir = None, opt_excel_pattern = None,
      opt_duckdb = Some ''db.duckdb'', opt_raw_dir = None, opt_table = None, opt_mode = None,
      opt_prod = True, opt_s3_bucket = None, opt_s3_prefix = None\<rparr>"

section \<open>Lemmas about frames and the source loader\<close>

lemma map_of_overwrite:
  "length r = length cols \<Longrightarrow> 
   map_of (zip cols (map (\<lambda>(k, x). if k = c then v else x) (zip cols r))) k =
     (if k = c \<and> c \<in> set cols then Some v else map_of (zip cols r) k)"
  by (induction r cols rule: list_induct2) auto

lemma cell_at_overwrite:
  "length r = length cols \<Longrightarrow> 
   cell_at cols (map (\<lambda>(k, x). if k = c then v else x) (zip cols r)) k =
     (if k = c \<and> c \<in> set cols then v else cell_at cols r k)"
  by (simp add: cell_at_def map_of_overwrite)

lemma map_of_append_col:
  "length r = length cols \<Longrightarrow> c \<notin> set cols \<Longrightarrow>
   map_of (zip (cols @ [c]) (r @ [v])) k = (if k = c then Some v else map_of (zip cols r) k)"
  by (induction r cols rule: list_induct2) auto

lemma cell_at_append:
  "length r = length cols \<Longrightarrow> c \<notin> set cols \<Longrightarrow>
   cell_at (cols @ [c]) (r @ [v]) k = (if k = c then v else cell_at cols r k)"
  unfolding cell_at_def by (subst map_of_append_col) auto

lemma cells_of_set_column:
  "rectangular df \<Longrightarrow> cells_of (set_column c v df) = map (\<lambda>f. f(c := v)) (cells_of df)"
  by (auto simp: cells_of_def set_column_def rectangular_def cell_at_overwrite cell_at_append fun_eq_iff)

lemma rectangular_set_column: "rectangular df \<Longrightarrow> rectangular (set_column c v df)"
  by (auto simp: set_column_def rectangular_def)

lemma columns_set_column: "set (columns (set_column c v df)) = insert c (set (columns df))"
  by (auto simp: set_column_def)

lemma rows_set_column: "length (rows (set_column c v df)) = length (rows df)"
  by (auto simp: set_column_def)

lemma cells_of_stamp:
  "rectangular df \<Longrightarrow> cells_of (stamp n t df) =
     map (\<lambda>f. f(''_source_file'' := Str n, ''_ingestion_timestamp'' := Stamp t)) (cells_of df)"
  by (simp add: stamp_def cells_of_set_column rectangular_set_column)

lemma rectangular_stamp: "rectangular df \<Longrightarrow> rectangular (stamp n t df)"
  by (simp add: stamp_def rectangular_set_column)

lemma columns_stamp:
  "set (columns (stamp n t df)) = set (columns df) \<union> {''_source_file'', ''_ingestion_timestamp''}"
  by (auto simp: stamp_def columns_set_column)

lemma rows_stamp: "length (rows (stamp n t df)) = length (rows df)"
  by (simp add: stamp_def rows_set_column)

lemma cell_at_missing: "c \<notin> set cols \<Longrightarrow> cell_at cols r c = Null"
  by (auto simp: cell_at_def split: option.splits dest: map_of_SomeD set_zip_leftD)

lemma cell_at_reindexed:
  "set cols' \<subseteq> set ucols \<Longrightarrow>
   cell_at ucols (map (cell_at cols' r) ucols) = cell_at cols' r"
proof (rule ext)
  fix x assume s: "set cols' \<subseteq> set ucols"
  show "cell_at ucols (map (cell_at cols' r) ucols) x = cell_at cols' r x"
  proof (cases "x \<in> set ucols")
    case True
    then show ?thesis by (simp add: cell_at_def[of ucols] map_of_zip_map)
  next
    case False
    with s have "x \<notin> set cols'" by auto
    with False show ?thesis by (simp add: cell_at_missing)
  qed
qed

lemma set_union_columns: "set (union_columns dfs) = (\<Union>df\<in>set dfs. set (columns df))"
  by (auto simp: union_columns_def)

lemma cells_of_pd_concat:
  "pd_concat dfs = Inr out \<Longrightarrow> cells_of out = concat (map cells_of dfs)"
proof -
  assume a: "pd_concat dfs = Inr out"
  have sub: "\<And>df. df \<in> set dfs \<Longrightarrow> set (columns df) \<subseteq> set (union_columns dfs)"
    by (auto simp: set_union_columns)
  have "map (cell_at (union_columns dfs)) (reindex (union_columns dfs) df) = cells_of df"
    if "df \<in> set dfs" for df
    using sub[OF that] by (simp add: reindex_def cells_of_def cell_at_reindexed comp_def)
  then show ?thesis using a
    by (auto simp: pd_concat_def cells_of_def map_concat comp_def split: if_splits
        intro!: arg_cong[where f=concat])
qed

lemma pd_concat_facts:
  "pd_concat dfs = Inr out \<Longrightarrow>
     set (columns out) = (\<Union>df\<in>set dfs. set (columns df)) \<and>
     length (rows out) = sum_list (map (\<lambda>df. length (rows df)) dfs) \<and> rectangular out"
  by (auto simp: pd_concat_def set_union_columns reindex_def length_concat comp_def rectangular_def
      split: if_splits)

lemma read_excel_rect: "frames_ok w \<Longrightarrow> read_excel w p = Inr df \<Longrightarrow> rectangular df"
  by (auto simp: frames_ok_def read_excel_def list_all_iff split: option.splits entry.splits
      dest!: map_of_SomeD)

lemma read_excel_ticks [simp]: "read_excel (w\<lparr>ticks := n\<rparr>) p = read_excel w p"
  by (simp add: read_excel_def)

lemma frames_ok_ticks [simp]: "frames_ok (w\<lparr>ticks := n\<rparr>) = frames_ok w"
  by (simp add: frames_ok_def)

lemma cells_of_stamp_unified:
  "rectangular df \<Longrightarrow> cells_of (stamp n t df) = map (unified_row n t df) (rows df)"
proof -
  assume r: "rectangular df"
  have "map (\<lambda>f. f(''_source_file'' := Str n, ''_ingestion_timestamp'' := Stamp t)) (cells_of df)
        = map (unified_row n t df) (rows df)"
    by (auto simp: cells_of_def unified_row_def fun_eq_iff cell_at_missing)
  with cells_of_stamp[OF r] show ?thesis by simp
qed

lemma read_all_ok:
  "read_all ps w = (Inr sdfs, w') \<Longrightarrow>
   \<exists>ts dfs. length ts = length ps \<and> map (read_excel w) ps = map Inr dfs \<and>
     sdfs = map (\<lambda>(p, t, df). stamp (name_of p) t df) (zip ps (zip ts dfs)) \<and>
     w' = w\<lparr>ticks := ticks w + length ps\<rparr>"
proof (induction ps arbitrary: w sdfs w')
  case Nil
  then show ?case by auto
next
  case (Cons p ps)
  from Cons.prems obtain df rest w2 where
    r: "read_excel w p = Inr df" and
    ra: "read_all ps (w\<lparr>ticks := Suc (ticks w)\<rparr>) = (Inr rest, w2)" and
    s: "sdfs = stamp (name_of p) (clock w (ticks w)) df # rest" and w': "w' = w2"
    by (auto simp: now_def split: sum.splits prod.splits)
  from Cons.IH[OF ra] obtain ts dfs where
    h: "length ts = length ps" "map (read_excel w) ps = map Inr dfs"
       "rest = map (\<lambda>(p, t, df). stamp (name_of p) t df) (zip ps (zip ts dfs))"
       "w2 = w\<lparr>ticks := Suc (ticks w) + length ps\<rparr>"
    by auto
  show ?case
    apply (rule exI[of _ "clock w (ticks w) # ts"])
    apply (rule exI[of _ "df # dfs"])
    using h r s w' by simp
qed

lemma combine_facts:
  "combine sdfs = Inr out \<Longrightarrow>
     sdfs \<noteq> [] \<and> cells_of out = concat (map cells_of sdfs) \<and>
     set (columns out) = (\<Union>df\<in>set sdfs. set (columns df)) \<and>
     length (rows out) = sum_list (map (\<lambda>df. length (rows df)) sdfs)"
proof (cases "\<exists>df. sdfs = [df]")
  case True
  assume "combine sdfs = Inr out"
  with True show ?thesis by (auto simp: combine_def)
next
  case False
  assume a: "combine sdfs = Inr out"
  with False have p: "pd_concat sdfs = Inr out"
    by (auto simp: combine_def split: list.splits)
  then have "sdfs \<noteq> []" by (auto simp: pd_concat_def)
  with cells_of_pd_concat[OF p] pd_concat_facts[OF p] show ?thesis by simp
qed

lemma stamped_facts:
  assumes l: "length ts = length ps" "length dfs = length ps"
      and r: "\<forall>df\<in>set dfs. rectangular df"
  shows "concat (map cells_of (map (\<lambda>(p, t, df). stamp (name_of p) t df) (zip ps (zip ts dfs))))
           = unified_rows (zip ps (zip ts dfs))"
    and "(\<Union>df\<in>set (map (\<lambda>(p, t, df). stamp (name_of p) t df) (zip ps (zip ts dfs))). set (columns df))
           = (if ps = [] then {} else (\<Union>df\<in>set dfs. set (columns df)) \<union> {''_source_file'', ''_ingestion_timestamp''})"
    and "sum_list (map (\<lambda>df. length (rows df)) (map (\<lambda>(p, t, df). stamp (name_of p) t df) (zip ps (zip ts dfs))))
           = sum_list (map (\<lambda>df. length (rows df)) dfs)"
  using l r
proof (induction ps arbitrary: ts dfs)
  case Nil
  { case 1 show ?case by (simp add: unified_rows_def) }
  { case 2 show ?case by simp }
  { case 3 then show ?case by simp }
next
  case (Cons p ps)
  { case 1
    then obtain t ts' df dfs' where e: "ts = t # ts'" "dfs = df # dfs'"
      by (cases ts; cases dfs) auto
    with 1 Cons.IH(1)[of ts' dfs'] show ?case
      by (simp add: unified_rows_def cells_of_stamp_unified) }
  { case 2
    then obtain t ts' df dfs' where e: "ts = t # ts'" "dfs = df # dfs'"
      by (cases ts; cases dfs) auto
    with 2 Cons.IH(2)[of ts' dfs'] show ?case
      by (auto simp: columns_stamp split: if_splits) }
  { case 3
    then obtain t ts' df dfs' where e: "ts = t # ts'" "dfs = df # dfs'"
      by (cases ts; cases dfs) auto
    with 3 Cons.IH(3)[of ts' dfs'] show ?case
      by (simp add: rows_stamp) }
qed

lemma unified_rows_provenance:
  "f \<in> set (unified_rows files) \<Longrightarrow> f ''_source_file'' \<noteq> Null \<and> f ''_ingestion_timestamp'' \<noteq> Null"
  by (auto simp: unified_rows_def unified_row_def)

lemma load_excel_files_reads:
  "load_excel_files xp xd pat w = (Inr out, w') \<Longrightarrow>
   \<exists>sdfs. read_all (source_files xp xd pat w) w = (Inr sdfs, w') \<and> combine sdfs = Inr out"
  by (auto simp: load_excel_files_def source_files_def now_def Let_def
      split: option.splits if_splits sum.splits prod.splits)

section \<open>Lemmas about the loader and the script\<close>

lemma tables_create_schema [simp]: "tables (create_schema s d) = tables d"
  by (simp add: create_schema_def)

lemma load_full_refresh:
  "load_to_duckdb p dbp t ''full_refresh'' w =
     (case stores w dbp of
        Unreachable \<Rightarrow> (Inl IOException, w)
      | Database d \<Rightarrow>
          (case read_parquet w p of
             Inl e \<Rightarrow>
               (Inl e, commit dbp (drop_table_if_exists (''raw'', t) (create_schema ''raw'' d)) w)
           | Inr snap \<Rightarrow>
               (Inr None,
                commit dbp ((create_schema ''raw'' d)\<lparr>tables := (tables d)((''raw'', t) \<mapsto> snap)\<rparr>)
                  (w\<lparr>stdout := stdout w @ [Recreated t, Total_records t (length (rows snap))]\<rparr>))))"
proof (cases "stores w dbp")
  case Unreachable
  then show ?thesis by (simp add: load_to_duckdb_def connect_def)
next
  case (Database d)
  then show ?thesis
    by (cases "read_parquet w p")
       (simp_all add: load_to_duckdb_def connect_def apply_mode_def create_table_as_def
          drop_table_if_exists_def count_rows_def create_schema_def)
qed

lemma load_incremental:
  "load_to_duckdb p dbp t ''incremental'' w =
     (case stores w dbp of
        Unreachable \<Rightarrow> (Inl IOException, w)
      | Database d \<Rightarrow>
          (case read_parquet w p of
             Inl e \<Rightarrow>
               (Inl e, commit dbp (create_schema ''raw'' d) w)
           | Inr snap \<Rightarrow>
               (case tables d (''raw'', t) of
                  None \<Rightarrow>
                    (Inr None,
                     commit dbp
                       ((create_schema ''raw'' d)\<lparr>tables := (tables d)((''raw'', t) \<mapsto> snap)\<rparr>)
                       (w\<lparr>stdout := stdout w @
                            [Created_new t, Total_records t (length (rows snap))]\<rparr>))
                | Some old \<Rightarrow>
                    (if length (columns snap) \<noteq> length (columns old)
                     then (Inl BinderException, commit dbp (create_schema ''raw'' d) w)
                     else (Inr None,
                           commit dbp
                             ((create_schema ''raw'' d)
                                \<lparr>tables := (tables d)((''raw'', t) \<mapsto>
                                    old\<lparr>rows := rows old @ rows snap\<rparr>)\<rparr>)
                             (w\<lparr>stdout := stdout w @
                                  [Appended t,
                                   Total_records t (length (rows old) + length (rows snap))]\<rparr>))))))"
proof (cases "stores w dbp")
  case Unreachable
  then show ?thesis by (simp add: load_to_duckdb_def connect_def)
next
  case (Database d)
  then show ?thesis
    by (cases "read_parquet w p"; cases "tables d (''raw'', t)")
       (simp_all add: load_to_duckdb_def connect_def apply_mode_def create_table_as_def
          insert_into_def table_exists_def count_rows_def create_schema_def)
qed

lemma raw_table_commit [simp]:
  "raw_table (commit dbp d w) dbp t = tables d (''raw'', t)"
  by (simp add: raw_table_def commit_def)

lemma stdout_commit [simp]: "stdout (commit dbp d w) = stdout w"
  by (simp add: commit_def)

lemma read_all_world: "\<exists>k. snd (read_all ps w) = w\<lparr>ticks := k\<rparr>"
proof (induction ps arbitrary: w)
  case Nil
  show ?case by (auto intro: exI[of _ "ticks w"])
next
  case (Cons p ps)
  show ?case
  proof (cases "read_excel w p")
    case (Inl e)
    then show ?thesis by (auto intro: exI[of _ "ticks w"])
  next
    case (Inr df)
    from Cons[of "w\<lparr>ticks := Suc (ticks w)\<rparr>"] obtain k where
      k: "snd (read_all ps (w\<lparr>ticks := Suc (ticks w)\<rparr>)) = w\<lparr>ticks := k\<rparr>" by auto
    with Inr show ?thesis
      by (auto simp: now_def split: prod.splits sum.splits intro!: exI[of _ k])
  qed
qed

lemma load_excel_files_world: "\<exists>k. snd (load_excel_files xp xd pat w) = w\<lparr>ticks := k\<rparr>"
proof -
  have triv: "\<exists>k. w = w\<lparr>ticks := k\<rparr>" by (auto intro: exI[of _ "ticks w"])
  have ra: "\<And>ps r w1. read_all ps w = (r, w1) \<Longrightarrow> \<exists>k. w1 = w\<lparr>ticks := k\<rparr>"
    using read_all_world by (metis snd_conv)
  show ?thesis
    using triv
    by (auto simp: load_excel_files_def now_def Let_def
        split: option.splits sum.splits prod.splits dest: ra)
qed

lemma write_parquet_ok:
  assumes "write_parquet_with_metadata df rd t m w = (Inr pp, w2)"
  shows "fs w2 = AList.update pp (Parquet df) (with_dir rd (fs w))"
    and "stores w2 = stores w" and "project_root w2 = project_root w"
    and "fnmatch w2 = fnmatch w" and "stdout w2 = stdout w"
  using assms
  by (auto simp: write_parquet_with_metadata_def mkdir_def now_def uuid4_def Let_def with_dir_def
      split: option.splits entry.splits prod.splits sum.splits)

lemma upload_frame:
  assumes "upload_to_s3 pp b pre w = (r, w3)"
  shows "fs w3 = fs w" and "stores w3 = stores w" and "project_root w3 = project_root w"
    and "fnmatch w3 = fnmatch w" and "stdout w3 = stdout w"
  using assms
  by (auto simp: upload_to_s3_def Let_def split: if_splits option.splits)

lemma load_frame:
  "fs (snd (load_to_duckdb pp dbp t m w)) = fs w"
  "fnmatch (snd (load_to_duckdb pp dbp t m w)) = fnmatch w"
  "project_root (snd (load_to_duckdb pp dbp t m w)) = project_root w"
  "q \<noteq> dbp \<Longrightarrow> stores (snd (load_to_duckdb pp dbp t m w)) q = stores w q"
  by (auto simp: load_to_duckdb_def commit_def split: sum.splits prod.splits)

lemma main_ok:
  assumes "fst (main a w) = Inr ()"
  shows "\<exists>df pp w3. fst (load_excel_files (arg_excel a) (arg_excel_dir a) (arg_excel_pattern a) w) = Inr df \<and>
      fs w3 = AList.update pp (Parquet df) (with_dir (arg_raw_dir a) (fs w)) \<and>
      stores w3 = stores w \<and> project_root w3 = project_root w \<and> fnmatch w3 = fnmatch w \<and>
      stdout w3 = stdout w \<and>
      fst (load_to_duckdb pp (arg_duckdb a) (arg_table a) (arg_mode a) w3) = Inr None \<and>
      snd (main a w) = snd (load_to_duckdb pp (arg_duckdb a) (arg_table a) (arg_mode a) w3)"
proof -
  obtain r1 w1 where l: "load_excel_files (arg_excel a) (arg_excel_dir a) (arg_excel_pattern a) w = (r1, w1)"
    by (cases "load_excel_files (arg_excel a) (arg_excel_dir a) (arg_excel_pattern a) w")
  from load_excel_files_world[of "arg_excel a" "arg_excel_dir a" "arg_excel_pattern a" w] l
  obtain k where w1: "w1 = w\<lparr>ticks := k\<rparr>" by auto
  from assms l obtain df where r1: "r1 = Inr df"
    by (cases r1) (auto simp: main_def)
  obtain r2 w2 where wp: "write_parquet_with_metadata df (arg_raw_dir a) (arg_table a) (arg_mode a) w1 = (r2, w2)"
    by (cases "write_parquet_with_metadata df (arg_raw_dir a) (arg_table a) (arg_mode a) w1")
  from assms l r1 wp obtain pp where r2: "r2 = Inr pp"
    by (cases r2) (auto simp: main_def)
  note w2 = write_parquet_ok[OF wp[unfolded r2]]
  obtain r3 w3 where up: "(if arg_prod a then upload_to_s3 pp (arg_s3_bucket a) (arg_s3_prefix a) w2
                      else (Inr (), w2)) = (r3, w3)"
    by (cases "(if arg_prod a then upload_to_s3 pp (arg_s3_bucket a) (arg_s3_prefix a) w2
                      else (Inr (), w2))")
  from assms l r1 wp r2 up obtain u where r3: "r3 = Inr u"
    by (cases r3) (auto simp: main_def)
  have w3: "fs w3 = fs w2" "stores w3 = stores w2" "project_root w3 = project_root w2"
    "fnmatch w3 = fnmatch w2" "stdout w3 = stdout w2"
    using up upload_frame[of pp "arg_s3_bucket a" "arg_s3_prefix a" w2 r3 w3]
    by (auto split: if_splits)
  obtain r4 w4 where ld: "load_to_duckdb pp (arg_duckdb a) (arg_table a) (arg_mode a) w3 = (r4, w4)"
    by (cases "load_to_duckdb pp (arg_duckdb a) (arg_table a) (arg_mode a) w3")
  from assms l r1 wp r2 up r3 ld obtain v where r4: "r4 = Inr v"
    by (cases r4) (auto simp: main_def)
  have v: "v = None" using ld r4
    by (auto simp: load_to_duckdb_def split: sum.splits prod.splits)
  have m: "snd (main a w) = w4" using l r1 wp r2 up r3 ld r4 by (simp add: main_def)
  show ?thesis
    apply (rule exI[of _ df], rule exI[of _ pp], rule exI[of _ w3])
    using l r1 w2 w3 w1 ld r4 v m by simp
qed

lemma read_parquet_written:
  "fs w3 = AList.update pp (Parquet df) al \<Longrightarrow> read_parquet w3 pp = Inr df"
  by (simp add: read_parquet_def update_conv')

lemma raw_count_commit [simp]:
  "raw_count (commit dbp d w) dbp t = map_option (\<lambda>x. length (rows x)) (tables d (''raw'', t))"
  by (simp add: raw_count_def)

lemma raw_count_Database:
  "stores w dbp = Database d \<Longrightarrow>
   raw_count w dbp t = map_option (\<lambda>x. length (rows x)) (tables d (''raw'', t))"
  by (simp add: raw_count_def raw_table_def)

lemma load_success_count:
  assumes ok: "fst (load_to_duckdb p dbp t m w) = Inr r"
      and m: "m = ''full_refresh'' \<or> m = ''incremental''"
  shows "\<exists>snap. read_parquet w p = Inr snap \<and>
     raw_count (snd (load_to_duckdb p dbp t m w)) dbp t =
       Some ((if m = ''incremental'' then or_default (raw_count w dbp t) 0 else 0) +
             length (rows snap))"
proof -
  from ok obtain d where d: "stores w dbp = Database d"
    by (cases "stores w dbp") (auto simp: load_to_duckdb_def connect_def)
  from ok m obtain snap where s: "read_parquet w p = Inr snap"
    by (cases "read_parquet w p") (auto simp: load_full_refresh load_incremental d)
  from m show ?thesis
  proof
    assume "m = ''full_refresh''"
    with d s show ?thesis by (simp add: load_full_refresh)
  next
    assume i: "m = ''incremental''"
    show ?thesis
    proof (cases "tables d (''raw'', t)")
      case None
      with i d s show ?thesis
        by (simp add: load_incremental raw_count_Database or_default_def)
    next
      case (Some old)
      with i d s ok show ?thesis
        by (simp add: load_incremental raw_count_Database or_default_def split: if_splits)
    qed
  qed
qed

lemma main_count:
  assumes m: "arg_mode a = ''full_refresh'' \<or> arg_mode a = ''incremental''"
      and ok: "fst (main a w) = Inr ()"
  shows "\<exists>df. fst (load_excel_files (arg_excel a) (arg_excel_dir a) (arg_excel_pattern a) w) = Inr df \<and>
     raw_count (snd (main a w)) (arg_duckdb a) (arg_table a) =
       Some ((if arg_mode a = ''incremental''
              then or_default (raw_count w (arg_duckdb a) (arg_table a)) 0 else 0) +
             length (rows df))"
proof -
  from main_ok[OF ok] obtain df pp w3 where
    h: "fst (load_excel_files (arg_excel a) (arg_excel_dir a) (arg_excel_pattern a) w) = Inr df"
       "fs w3 = AList.update pp (Parquet df) (with_dir (arg_raw_dir a) (fs w))"
       "stores w3 = stores w"
       "fst (load_to_duckdb pp (arg_duckdb a) (arg_table a) (arg_mode a) w3) = Inr None"
       "snd (main a w) = snd (load_to_duckdb pp (arg_duckdb a) (arg_table a) (arg_mode a) w3)"
    by blast
  from read_parquet_written[OF h(2)] have rp: "read_parquet w3 pp = Inr df" .
  have rc: "raw_count w3 (arg_duckdb a) (arg_table a) = raw_count w (arg_duckdb a) (arg_table a)"
    by (simp add: raw_count_def raw_table_def h(3))
  from load_success_count[OF h(4) m] rp rc h(1) h(5) show ?thesis by auto
qed

lemma stamped_rows:
  "length ts = length ps \<Longrightarrow> length dfs = length ps \<Longrightarrow>
   sum_list (map (\<lambda>df. length (rows df))
       (map (\<lambda>(p, t, df). stamp (name_of p) t df) (zip ps (zip ts dfs))))
     = sum_list (map (\<lambda>df. length (rows df)) dfs)"
proof (induction ps arbitrary: ts dfs)
  case Nil
  then show ?case by simp
next
  case (Cons p ps)
  then obtain t ts' df dfs' where e: "ts = t # ts'" "dfs = df # dfs'"
    by (cases ts; cases dfs) auto
  with Cons.prems Cons.IH[of ts' dfs'] show ?case by (simp add: rows_stamp)
qed

lemma load_excel_files_rows:
  assumes ok: "fst (load_excel_files xp xd pat w) = Inr out"
  shows "\<exists>dfs. map (read_excel w) (source_files xp xd pat w) = map Inr dfs \<and>
     length (rows out) = sum_list (map (\<lambda>df. length (rows df)) dfs)"
proof -
  let ?ps = "source_files xp xd pat w"
  from ok obtain w' where "load_excel_files xp xd pat w = (Inr out, w')"
    by (cases "load_excel_files xp xd pat w") auto
  from load_excel_files_reads[OF this] obtain sdfs where
    ra: "read_all ?ps w = (Inr sdfs, w')" and c: "combine sdfs = Inr out" by auto
  from read_all_ok[OF ra] obtain ts dfs where
    h: "length ts = length ?ps" "map (read_excel w) ?ps = map Inr dfs"
       "sdfs = map (\<lambda>(p, t, df). stamp (name_of p) t df) (zip ?ps (zip ts dfs))"
    by auto
  from h(2) have ld: "length dfs = length ?ps" by (metis length_map)
  from combine_facts[OF c] have
    "length (rows out) = sum_list (map (\<lambda>df. length (rows df)) sdfs)" by simp
  with stamped_rows[OF h(1) ld] h(3) h(2) show ?thesis by auto
qed

lemma map_of_with_dir_Excel:
  "map_of (with_dir rd al) p = Some (Excel df) \<longleftrightarrow> map_of al p = Some (Excel df)"
  by (auto simp: with_dir_def map_add_def split: option.splits if_splits)

lemma read_excel_after:
  assumes "fs w' = AList.update pp (Parquet df0) (with_dir rd (fs w))"
  shows "read_excel w' p = Inr df \<longleftrightarrow> p \<noteq> pp \<and> read_excel w p = Inr df"
proof -
  have "map_of (fs w') p = Some (Excel df) \<longleftrightarrow> p \<noteq> pp \<and> map_of (fs w) p = Some (Excel df)"
    unfolding assms by (auto simp: update_conv' map_of_with_dir_Excel)
  then show ?thesis
    by (auto simp: read_excel_def split: option.splits entry.splits)
qed

lemma keys_after:
  assumes "fs w' = AList.update pp (Parquet df0) (with_dir rd (fs (w::world)))"
  shows "\<exists>ex. map fst (fs w') = map fst (fs w) @ ex \<and> (\<forall>x\<in>set ex. \<forall>df. read_excel w' x \<noteq> Inr df)"
proof -
  have k1: "\<exists>e1. map fst (with_dir rd (fs w)) = map fst (fs w) @ e1 \<and> set e1 \<subseteq> {rd} \<and>
      (rd \<in> set e1 \<longrightarrow> map_of (fs w) rd = None)"
    by (auto simp: with_dir_def)
  then obtain e1 where e1: "map fst (with_dir rd (fs w)) = map fst (fs w) @ e1" "set e1 \<subseteq> {rd}"
    "rd \<in> set e1 \<longrightarrow> map_of (fs w) rd = None" by blast
  have "\<exists>e2. map fst (fs w') = map fst (with_dir rd (fs w)) @ e2 \<and> set e2 \<subseteq> {pp}"
    unfolding assms update_keys
    by (cases "pp \<in> set (map fst (with_dir rd (fs w)))") auto
  then obtain e2 where e2: "map fst (fs w') = map fst (with_dir rd (fs w)) @ e2" "set e2 \<subseteq> {pp}"
    by blast
  have "\<forall>x\<in>set (e1 @ e2). \<forall>df. read_excel w' x \<noteq> Inr df"
  proof (intro ballI allI)
    fix x df assume "x \<in> set (e1 @ e2)"
    then have "x = pp \<or> (x = rd \<and> map_of (fs w) rd = None)" using e1 e2 by auto
    then show "read_excel w' x \<noteq> Inr df"
      unfolding read_excel_after[OF assms] by (auto simp: read_excel_def)
  qed
  with e1(1) e2(1) show ?thesis by (intro exI[of _ "e1 @ e2"]) simp
qed

lemma glob_after:
  assumes f: "fs w' = AList.update pp (Parquet df0) (with_dir rd (fs w))"
      and m: "fnmatch w' = fnmatch w"
  shows "\<exists>ex. glob w' d q = glob w d q @ ex \<and> (\<forall>x\<in>set ex. \<forall>df. read_excel w' x \<noteq> Inr df)"
proof -
  from keys_after[OF f] obtain ex where
    e: "map fst (fs w') = map fst (fs w) @ ex" "\<forall>x\<in>set ex. \<forall>df. read_excel w' x \<noteq> Inr df" by blast
  show ?thesis
    by (rule exI[of _ "filter (\<lambda>p. parent_of p = d \<and> fnmatch w (name_of p) q) ex"])
       (use e in \<open>auto simp: glob_def m\<close>)
qed

lemma all_readable_prefix:
  assumes "xs = ys @ ex" and "\<forall>x\<in>set ex. \<forall>df. read_excel w' x \<noteq> Inr df"
      and "map (read_excel w') xs = map Inr dfs"
  shows "xs = ys"
proof -
  have "\<forall>x\<in>set xs. \<exists>df. read_excel w' x = Inr df"
  proof
    fix x assume "x \<in> set xs"
    then have "read_excel w' x \<in> set (map (read_excel w') xs)" by simp
    then show "\<exists>df. read_excel w' x = Inr df" unfolding assms(3) by auto
  qed
  with assms(1,2) have "ex = []" by (cases ex) auto
  with assms(1) show ?thesis by simp
qed

lemma source_files_after:
  assumes f: "fs w' = AList.update pp (Parquet df0) (with_dir rd (fs w))"
      and m: "fnmatch w' = fnmatch w"
      and r: "map (read_excel w') (source_files xp xd pat w') = map Inr dfs"
  shows "source_files xp xd pat w' = source_files xp xd pat w"
proof (cases "given xp")
  case (Some p)
  then show ?thesis by (simp add: source_files_def)
next
  case None
  show ?thesis
  proof (cases "given xd")
    case dNone: None
    with None show ?thesis by (simp add: source_files_def)
  next
    case (Some d)
    show ?thesis
    proof (cases "given pat")
      case (Some q)
      from glob_after[OF f m, of d q] obtain ex where
        e: "glob w' d q = glob w d q @ ex" "\<forall>x\<in>set ex. \<forall>df. read_excel w' x \<noteq> Inr df" by blast
      have s: "source_files xp xd pat w' = glob w' d q" "source_files xp xd pat w = glob w d q"
        using None \<open>given xd = Some d\<close> Some by (simp_all add: source_files_def)
      from all_readable_prefix[OF e(1) e(2) r[unfolded s(1)]] s show ?thesis by simp
    next
      case pNone: None
      from glob_after[OF f m, of d "''*.xlsx''"] obtain e1 where
        e1: "glob w' d ''*.xlsx'' = glob w d ''*.xlsx'' @ e1"
            "\<forall>x\<in>set e1. \<forall>df. read_excel w' x \<noteq> Inr df" by blast
      from glob_after[OF f m, of d "''*.xls''"] obtain e2 where
        e2: "glob w' d ''*.xls'' = glob w d ''*.xls'' @ e2"
            "\<forall>x\<in>set e2. \<forall>df. read_excel w' x \<noteq> Inr df" by blast
      have s: "source_files xp xd pat w' = glob w' d ''*.xlsx'' @ glob w' d ''*.xls''"
              "source_files xp xd pat w = glob w d ''*.xlsx'' @ glob w d ''*.xls''"
        using None \<open>given xd = Some d\<close> pNone by (simp_all add: source_files_def)
      have all: "\<forall>x\<in>set (source_files xp xd pat w'). \<exists>df. read_excel w' x = Inr df"
      proof
        fix x assume "x \<in> set (source_files xp xd pat w')"
        then have "read_excel w' x \<in> set (map (read_excel w') (source_files xp xd pat w'))" by simp
        then show "\<exists>df. read_excel w' x = Inr df" unfolding r by auto
      qed
      have "e1 = []" using all e1 unfolding s(1) by (cases e1) auto
      moreover have "e2 = []" using all e2 unfolding s(1) by (cases e2) auto
      ultimately show ?thesis using s e1 e2 by simp
    qed
  qed
qed

lemma same_source_rows:
  assumes f: "fs w' = AList.update pp (Parquet df0) (with_dir rd (fs w))"
      and m: "fnmatch w' = fnmatch w"
      and ok: "fst (load_excel_files xp xd pat w) = Inr out"
      and ok': "fst (load_excel_files xp xd pat w') = Inr out'"
  shows "length (rows out') = length (rows out)"
proof -
  from load_excel_files_rows[OF ok] obtain dfs where
    d: "map (read_excel w) (source_files xp xd pat w) = map Inr dfs"
       "length (rows out) = sum_list (map (\<lambda>df. length (rows df)) dfs)" by blast
  from load_excel_files_rows[OF ok'] obtain dfs' where
    d': "map (read_excel w') (source_files xp xd pat w') = map Inr dfs'"
       "length (rows out') = sum_list (map (\<lambda>df. length (rows df)) dfs')" by blast
  note s = source_files_after[OF f m d'(1)]
  have "map (read_excel w) (source_files xp xd pat w) = map Inr dfs'"
  proof (rule nth_equalityI)
    show "length (map (read_excel w) (source_files xp xd pat w)) = length (map Inr dfs')"
      using d'(1) s by (metis length_map)
  next
    fix i assume "i < length (map (read_excel w) (source_files xp xd pat w))"
    then have i: "i < length (source_files xp xd pat w)" by simp
    then have "read_excel w' (source_files xp xd pat w ! i) = map Inr dfs' ! i"
      using d'(1) s by (metis nth_map)
    moreover have "i < length dfs'" using i d'(1) s by (metis length_map)
    ultimately have "read_excel w' (source_files xp xd pat w ! i) = Inr (dfs' ! i)" by simp
    then have "read_excel w (source_files xp xd pat w ! i) = Inr (dfs' ! i)"
      unfolding read_excel_after[OF f] by simp
    with i \<open>i < length dfs'\<close> show "map (read_excel w) (source_files xp xd pat w) ! i = map Inr dfs' ! i"
      by simp
  qed
  with d(1) have "map Inr dfs = (map Inr dfs' :: (error + dataframe) list)" by simp
  then have "dfs = dfs'" by (simp add: inj_map_eq_map)
  with d(2) d'(2) show ?thesis by simp
qed

lemma main_leaves:
  assumes ok: "fst (main a w) = Inr ()"
  shows "\<exists>pp df. fs (snd (main a w)) = AList.update pp (Parquet df) (with_dir (arg_raw_dir a) (fs w))"
    and "fnmatch (snd (main a w)) = fnmatch w"
proof -
  from main_ok[OF ok] obtain df pp w3 where
    h: "fs w3 = AList.update pp (Parquet df) (with_dir (arg_raw_dir a) (fs w))"
       "fnmatch w3 = fnmatch w"
       "snd (main a w) = snd (load_to_duckdb pp (arg_duckdb a) (arg_table a) (arg_mode a) w3)"
    by blast
  show "\<exists>pp df. fs (snd (main a w)) = AList.update pp (Parquet df) (with_dir (arg_raw_dir a) (fs w))"
    using h by (auto simp: load_frame)
  show "fnmatch (snd (main a w)) = fnmatch w"
    using h by (simp add: load_frame)
qed

section \<open>Lemmas about the quality gate\<close>


lemma EmptyLayer_inj [simp]: "EmptyLayer l = EmptyLayer l' \<longleftrightarrow> l = l'"
  by (cases l; cases l') simp_all

lemma EmptyLayer_neq [simp]:
  "EmptyLayer l \<noteq> CatalogException" "EmptyLayer l \<noteq> IOException"
  by (cases l; simp)+


lemma write_parquet_frame:
  "stores (snd (write_parquet_with_metadata df rd t m w)) = stores w"
  "project_root (snd (write_parquet_with_metadata df rd t m w)) = project_root w"
  by (auto simp: write_parquet_with_metadata_def mkdir_def now_def uuid4_def Let_def
      split: option.splits entry.splits prod.splits sum.splits)






section \<open>Lemmas about the snapshot file name\<close>

lemma digit_eq: "digit a = digit b \<longleftrightarrow> a mod 10 = b mod 10"
  unfolding digit_def by (subst nth_eq_iff_index_eq) simp_all

lemma two_digits: "a div 10 = b div 10 \<Longrightarrow> a mod 10 = b mod 10 \<Longrightarrow> a = (b::nat)"
  by (metis div_mult_mod_eq)

lemma pad2_eq:
  assumes "a < 100" "b < 100"
  shows "pad2 a = pad2 b \<longleftrightarrow> a = b"
proof
  assume "pad2 a = pad2 b"
  then have d: "(a div 10) mod 10 = (b div 10) mod 10" "a mod 10 = b mod 10"
    by (simp_all add: pad2_def digit_eq)
  from assms have "a div 10 < 10" "b div 10 < 10" by simp_all
  with d(1) have "a div 10 = b div 10" by simp
  then show "a = b" using d(2) by (rule two_digits)
qed simp

lemma pad4_eq:
  assumes "a < 10000" "b < 10000"
  shows "pad4 a = pad4 b \<longleftrightarrow> a = b"
proof
  assume "pad4 a = pad4 b"
  then have d: "(a div 1000) mod 10 = (b div 1000) mod 10" "(a div 100) mod 10 = (b div 100) mod 10"
    "(a div 10) mod 10 = (b div 10) mod 10" "a mod 10 = b mod 10"
    by (simp_all add: pad4_def digit_eq)
  from assms have "a div 1000 < 10" "b div 1000 < 10" by simp_all
  with d(1) have 3: "a div 1000 = b div 1000" by simp
  have "a div 100 div 10 = a div 1000" "b div 100 div 10 = b div 1000"
    by (simp_all add: div_mult2_eq[symmetric])
  with 3 d(2) have 2: "a div 100 = b div 100" by - (rule two_digits, simp_all)
  have "a div 10 div 10 = a div 100" "b div 10 div 10 = b div 100"
    by (simp_all add: div_mult2_eq[symmetric])
  with 2 d(3) have 1: "a div 10 = b div 10" by - (rule two_digits, simp_all)
  then show "a = b" using d(4) by (rule two_digits)
qed simp


lemma digit_in: "digit n \<in> set ''0123456789''"
  unfolding digit_def by (rule nth_mem) simp

lemma hexdigit_in: "hexdigit n \<in> set ''0123456789abcdef''"
  unfolding hexdigit_def by (rule nth_mem) simp

lemma length_strftime: "length (strftime t) = 15"
  by (simp add: strftime_def pad2_def pad4_def)

lemma length_hex8: "length (take 8 (hex u)) = 8"
  by (simp add: hex_def)

lemma set_hex8: "set (take 8 (hex u)) \<subseteq> set ''0123456789abcdef''"
proof
  fix c assume "c \<in> set (take 8 (hex u))"
  then have "c \<in> set (hex u)" by (rule in_set_takeD)
  then have "c \<in> (\<lambda>i. hexdigit (u div 16 ^ (31 - i))) ` set [0..<32]"
    unfolding hex_def set_map .
  then obtain i where "c = hexdigit (u div 16 ^ (31 - i))" by blast
  then show "c \<in> set ''0123456789abcdef''" using hexdigit_in by simp
qed

lemma strftime_parts:
  "strftime t = strftime t' \<longleftrightarrow>
        pad4 (year t) = pad4 (year t') \<and> pad2 (month t) = pad2 (month t') \<and>
        pad2 (day t) = pad2 (day t') \<and> pad2 (hour t) = pad2 (hour t') \<and>
        pad2 (minute t) = pad2 (minute t') \<and> pad2 (second t) = pad2 (second t')"
  unfolding strftime_def
  by (simp add: append_eq_append_conv pad2_def pad4_def)


lemma strftime_eq:
  assumes "valid_datetime t" "valid_datetime t'"
  shows "strftime t = strftime t' \<longleftrightarrow> same_second t t'"
  using assms unfolding strftime_parts same_second_def valid_datetime_def
  by (simp add: pad2_eq pad4_eq)

lemma mode_suffix:
  assumes "m = ''full_refresh'' \<or> m = ''incremental''"
      and "m' = ''full_refresh'' \<or> m' = ''incremental''"
      and "table @ ''_'' @ m = table' @ ''_'' @ m'"
  shows "table = table' \<and> m = m'"
proof -
  have "m = m'"
  proof (rule ccontr)
    assume "m \<noteq> m'"
    with assms(1,2) consider "m = ''full_refresh''" "m' = ''incremental''"
      | "m = ''incremental''" "m' = ''full_refresh''" by blast
    then show False
    proof cases
      case 1
      from assms(3) have "last (table @ ''_'' @ m) = last (table' @ ''_'' @ m')" by simp
      with 1 show False by simp
    next
      case 2
      from assms(3) have "last (table @ ''_'' @ m) = last (table' @ ''_'' @ m')" by simp
      with 2 show False by simp
    qed
  qed
  with assms(3) show ?thesis by simp
qed

lemma filename_eq:
  assumes "m = ''full_refresh'' \<or> m = ''incremental''"
      and "m' = ''full_refresh'' \<or> m' = ''incremental''"
  shows "parquet_filename table m t u = parquet_filename table' m' t' u' \<longleftrightarrow>
         table = table' \<and> m = m' \<and> strftime t = strftime t' \<and> take 8 (hex u) = take 8 (hex u')"
proof
  assume e: "parquet_filename table m t u = parquet_filename table' m' t' u'"
  let ?S = "\<lambda>t u. ''_'' @ strftime t @ ''_'' @ take 8 (hex u) @ ''.parquet''"
  have l: "length (?S t u) = length (?S t' u')"
    using length_hex8[of u] length_hex8[of u'] by (simp add: length_strftime del: length_take)
  from e have "(table @ ''_'' @ m) @ ?S t u = (table' @ ''_'' @ m') @ ?S t' u'"
    by (simp add: parquet_filename_def)
  with l have a: "table @ ''_'' @ m = table' @ ''_'' @ m'" and b: "?S t u = ?S t' u'"
    using append_eq_append_conv by blast+
  from b have "strftime t @ (''_'' @ take 8 (hex u) @ ''.parquet'') =
               strftime t' @ (''_'' @ take 8 (hex u') @ ''.parquet'')" by simp
  then have c: "strftime t = strftime t'" and d: "''_'' @ take 8 (hex u) @ ''.parquet'' = ''_'' @ take 8 (hex u') @ ''.parquet''"
    using append_eq_append_conv[of "strftime t" "strftime t'"] by (simp_all add: length_strftime)
  from d have "take 8 (hex u) = take 8 (hex u')" by simp
  with mode_suffix[OF assms a] c
  show "table = table' \<and> m = m' \<and> strftime t = strftime t' \<and> take 8 (hex u) = take 8 (hex u')"
    by simp
next
  assume "table = table' \<and> m = m' \<and> strftime t = strftime t' \<and> take 8 (hex u) = take 8 (hex u')"
  then show "parquet_filename table m t u = parquet_filename table' m' t' u'"
    by (simp add: parquet_filename_def)
qed

lemma write_parquet_path:
  "fst (write_parquet_with_metadata df rd table m w) = Inr p \<Longrightarrow>
   p = join rd (parquet_filename table m (clock w (ticks w)) (uuid_ints w (draws w) mod 2 ^ 128))"
  by (auto simp: write_parquet_with_metadata_def mkdir_def now_def uuid4_def Let_def
      split: option.splits entry.splits prod.splits sum.splits)

lemma take8_hex:
  "take 8 (hex u) =
     [hexdigit (u div 16 ^ 31), hexdigit (u div 16 ^ 30), hexdigit (u div 16 ^ 29),
      hexdigit (u div 16 ^ 28), hexdigit (u div 16 ^ 27), hexdigit (u div 16 ^ 26),
      hexdigit (u div 16 ^ 25), hexdigit (u div 16 ^ 24)]"
proof -
  have "take 8 (hex u) = map (\<lambda>i. hexdigit (u div 16 ^ (31 - i))) [0..<8]"
    by (simp add: hex_def take_map)
  also have "[0..<8] = [0, 1, 2, 3, 4, 5, 6, 7::nat]"
    by (simp add: upt_rec)
  finally show ?thesis by simp
qed

section \<open>Lemmas about the mirror upload\<close>

lemma upload_fails:
  "\<not> boto3 w \<or> b = [] \<or> \<not> s3_accepts w b \<Longrightarrow>
   \<exists>e. upload_to_s3 pp b pre w = (Inl e, w) \<and>
       e = (if \<not> boto3 w then RuntimeError ''boto3 not installed. Install boto3 or remove --prod''
            else if b = [] then ValueError ''Missing --s3_bucket (or env RAW_S3_BUCKET) for --prod''
            else if map_of (fs w) pp = None then FileNotFoundError pp
            else S3UploadFailedError)"
  by (auto simp: upload_to_s3_def Let_def split: option.splits)

lemma write_parquet_keeps:
  "boto3 (snd (write_parquet_with_metadata df rd t m w)) = boto3 w"
  "s3_accepts (snd (write_parquet_with_metadata df rd t m w)) = s3_accepts w"
  "s3 (snd (write_parquet_with_metadata df rd t m w)) = s3 w"
  by (auto simp: write_parquet_with_metadata_def mkdir_def now_def uuid4_def Let_def
      split: option.splits entry.splits prod.splits sum.splits)

lemma main_prod_fails:
  assumes p: "arg_prod a"
      and bad: "\<not> boto3 w \<or> arg_s3_bucket a = [] \<or> \<not> s3_accepts w (arg_s3_bucket a)"
  shows "\<exists>e. fst (main a w) = Inl e \<and> stores (snd (main a w)) = stores w \<and>
             s3 (snd (main a w)) = s3 w"
proof -
  obtain r1 w1 where l: "load_excel_files (arg_excel a) (arg_excel_dir a) (arg_excel_pattern a) w = (r1, w1)"
    by (cases "load_excel_files (arg_excel a) (arg_excel_dir a) (arg_excel_pattern a) w")
  from load_excel_files_world[of "arg_excel a" "arg_excel_dir a" "arg_excel_pattern a" w] l
  obtain k where w1: "w1 = w\<lparr>ticks := k\<rparr>" by auto
  show ?thesis
  proof (cases r1)
    case (Inl e)
    with l w1 show ?thesis by (simp add: main_def)
  next
    case (Inr df)
    obtain r2 w2 where wp: "write_parquet_with_metadata df (arg_raw_dir a) (arg_table a) (arg_mode a) w1 = (r2, w2)"
      by (cases "write_parquet_with_metadata df (arg_raw_dir a) (arg_table a) (arg_mode a) w1")
    have w2: "stores w2 = stores w" "s3 w2 = s3 w" "boto3 w2 = boto3 w" "s3_accepts w2 = s3_accepts w"
      using write_parquet_frame[of df "arg_raw_dir a" "arg_table a" "arg_mode a" w1]
        write_parquet_keeps[of df "arg_raw_dir a" "arg_table a" "arg_mode a" w1] wp w1 by simp_all
    show ?thesis
    proof (cases r2)
      case (Inl e)
      with l Inr wp w2 show ?thesis by (simp add: main_def)
    next
      case pp: (Inr pp)
      from write_parquet_ok(1)[OF wp[unfolded pp]] have f: "map_of (fs w2) pp = Some (Parquet df)"
        by (simp add: update_conv')
      from bad w2 have "\<not> boto3 w2 \<or> arg_s3_bucket a = [] \<or> \<not> s3_accepts w2 (arg_s3_bucket a)" by simp
      from upload_fails[OF this, of pp "arg_s3_prefix a"] f obtain e where
        u: "upload_to_s3 pp (arg_s3_bucket a) (arg_s3_prefix a) w2 = (Inl e, w2)"
        and e: "e = (if \<not> boto3 w2 then RuntimeError ''boto3 not installed. Install boto3 or remove --prod''
            else if arg_s3_bucket a = [] then ValueError ''Missing --s3_bucket (or env RAW_S3_BUCKET) for --prod''
            else S3UploadFailedError)" by auto
      from l Inr wp pp u p have "main a w = (Inl e, w2)" by (simp add: main_def)
      with w2 show ?thesis by simp
    qed
  qed
qed

lemma cmd_prod:
  "opt_prod (ingestion_cmd pm w) \<longleftrightarrow>
     getenv w ''ENVIRONMENT'' = Some ''production'' \<and> given (getenv w ''RAW_S3_BUCKET'') \<noteq> None"
  by (auto simp: ingestion_cmd_def Let_def split: option.splits)


lemma parse_args_prod:
  "parse_args w c = Inr a \<Longrightarrow> arg_prod a = opt_prod c \<and> arg_s3_bucket a = resolved_bucket w c"
  by (auto simp: parse_args_def resolved_bucket_def split: option.splits if_splits)

lemma script_prod_fails:
  assumes p: "opt_prod c"
      and bad: "\<not> boto3 w \<or> resolved_bucket w c = [] \<or> \<not> s3_accepts w (resolved_bucket w c)"
  shows "\<exists>e. fst (ingest_script c w) = Inl e \<and> stores (snd (ingest_script c w)) = stores w \<and>
             s3 (snd (ingest_script c w)) = s3 w"
proof (cases "parse_args w c")
  case (Inl e)
  then show ?thesis by (simp add: ingest_script_def)
next
  case (Inr a)
  from parse_args_prod[OF Inr] p bad have "arg_prod a"
    "\<not> boto3 w \<or> arg_s3_bucket a = [] \<or> \<not> s3_accepts w (arg_s3_bucket a)" by simp_all
  from main_prod_fails[OF this] Inr show ?thesis by (simp add: ingest_script_def)
qed

lemma load_s3 [simp]: "s3 (snd (load_to_duckdb pp dbp t m w)) = s3 w"
  by (auto simp: load_to_duckdb_def commit_def split: sum.splits prod.splits)

lemma load_s3_pair: "load_to_duckdb pp dbp t m w = (r, w') \<Longrightarrow> s3 w' = s3 w"
  using load_s3[of pp dbp t m w] by simp

lemma main_no_prod_s3:
  assumes "\<not> arg_prod a"
  shows "s3 (snd (main a w)) = s3 w"
proof -
  obtain r1 w1 where l: "load_excel_files (arg_excel a) (arg_excel_dir a) (arg_excel_pattern a) w = (r1, w1)"
    by (cases "load_excel_files (arg_excel a) (arg_excel_dir a) (arg_excel_pattern a) w")
  from load_excel_files_world[of "arg_excel a" "arg_excel_dir a" "arg_excel_pattern a" w] l
  obtain k where w1: "w1 = w\<lparr>ticks := k\<rparr>" by auto
  show ?thesis
  proof (cases r1)
    case (Inl e)
    with l w1 show ?thesis by (simp add: main_def)
  next
    case (Inr df)
    obtain r2 w2 where wp: "write_parquet_with_metadata df (arg_raw_dir a) (arg_table a) (arg_mode a) w1 = (r2, w2)"
      by (cases "write_parquet_with_metadata df (arg_raw_dir a) (arg_table a) (arg_mode a) w1")
    have w2: "s3 w2 = s3 w"
      using write_parquet_keeps[of df "arg_raw_dir a" "arg_table a" "arg_mode a" w1] wp w1 by simp
    from l Inr wp w2 assms show ?thesis
      by (cases r2) (auto simp: main_def split: sum.splits prod.splits dest: load_s3_pair)
  qed
qed

lemma run_ingestion_skips:
  assumes "getenv w ''ENVIRONMENT'' = Some ''production''"
      and "given (getenv w ''RAW_S3_BUCKET'') = None"
  shows "s3 (snd (run_ingestion pm w)) = s3 w"
proof -
  from assms have np: "\<not> opt_prod (ingestion_cmd pm w)" by (simp add: cmd_prod)
  show ?thesis
  proof (cases "parse_args w (ingestion_cmd pm w)")
    case (Inl e)
    then show ?thesis by (simp add: run_ingestion_def ingest_script_def)
  next
    case (Inr a)
    with parse_args_prod[OF Inr] np have "\<not> arg_prod a" by simp
    from main_no_prod_s3[OF this, of w] Inr show ?thesis
      by (auto simp: run_ingestion_def ingest_script_def split: sum.splits prod.splits)
  qed
qed

lemma run_ingestion_prod_fails:
  assumes e: "getenv w ''ENVIRONMENT'' = Some ''production''"
      and b: "given (getenv w ''RAW_S3_BUCKET'') = Some bucket"
      and bad: "\<not> boto3 w \<or> \<not> s3_accepts w bucket"
  shows "\<exists>n. fst (run_ingestion pm w) = Inl (CalledProcessError n) \<and>
     stores (snd (run_ingestion pm w)) = stores w \<and> s3 (snd (run_ingestion pm w)) = s3 w"
proof -
  from e b have p: "opt_prod (ingestion_cmd pm w)" by (simp add: cmd_prod)
  from e b have "resolved_bucket w (ingestion_cmd pm w) = bucket"
    by (simp add: ingestion_cmd_def resolved_bucket_def Let_def or_default_def)
  with bad have "\<not> boto3 w \<or> resolved_bucket w (ingestion_cmd pm w) = [] \<or>
      \<not> s3_accepts w (resolved_bucket w (ingestion_cmd pm w))" by simp
  from script_prod_fails[OF p this] show ?thesis
    by (auto simp: run_ingestion_def split: sum.splits prod.splits)
qed

section \<open>Evaluation on the concrete world\<close>

text \<open>The definitions the simplifier unfolds to run the functions on the concrete worlds.\<close>

lemmas source_eval =
  load_excel_files_def exists_def glob_def example_world_def parent_of_def name_of_def
  star_match_def read_excel_def now_def stamp_def set_column_def loans_a_def loans_b_def loans_c_def
  combine_def pd_concat_def union_columns_def reindex_def cell_at_def example_unified_def

lemmas loader_eval =
  load_to_duckdb_def connect_def commit_def read_parquet_def create_schema_def
  drop_table_if_exists_def create_table_as_def insert_into_def table_exists_def count_rows_def
  apply_mode_def raw_count_def raw_table_def empty_db_def stocked_db_def stocked_world_def
  example_world_def loans_a_def loans_b_def loans_c_def loans_d_def

lemmas main_eval =
  main_def write_parquet_with_metadata_def mkdir_def uuid4_def parquet_filename_def
  strftime_def pad2_def pad4_def digit_def take8_hex hexdigit_def join_def upload_to_s3_def
  example_args_def incremental_args_def rstrip_slash_def Let_def


lemmas run_eval =
  run_ingestion_def ingestion_cmd_def ingest_script_def parse_args_def getenv_def or_default_def
  get_project_paths_def resolved_bucket_def prod_world_def prod_world_bucket_def publish_cmd_def

section \<open>SourceLoader\<close>

text \<open>
  C6, as the code has it. With neither a single path nor a directory selected the loader
  raises the \<open>ValueError\<close> of its last branch and changes nothing. With a single path
  selected the first branch runs whatever else is given: the single path takes precedence,
  and the directory and the pattern are not looked at.
\<close>

theorem load_excel_files_source_mode:
  "(given xp = None \<and> given xd = None \<longrightarrow>
      load_excel_files xp xd pat w =
        (Inl (ValueError ''Either --excel or --excel_dir must be specified''), w)) \<and>
   (given xp \<noteq> None \<longrightarrow> load_excel_files xp xd pat w = load_excel_files xp None None w)"
  by (auto simp: load_excel_files_def split: option.splits)

theorem load_excel_files_source_mode_witness:
  "load_excel_files None (Some []) None example_world =
     (Inl (ValueError ''Either --excel or --excel_dir must be specified''), example_world) \<and>
   load_excel_files (Some ''one.xlsx'') (Some ''data'') (Some ''*.xlsx'') example_world =
     load_excel_files (Some ''one.xlsx'') None None example_world"
  using load_excel_files_source_mode [of None "Some []" None example_world]
    load_excel_files_source_mode [of "Some ''one.xlsx''" "Some ''data''" "Some ''*.xlsx''" example_world]
  by simp

text \<open>
  C6 as stated fails where both are selected: the result is the single workbook's one row,
  not the three rows of the directory.
\<close>

theorem directory_precedence_counterexample:
  "fst (load_excel_files (Some ''one.xlsx'') (Some ''data'') None example_world) =
     Inr \<lparr>columns = [''loan_id'', ''_source_file'', ''_ingestion_timestamp''],
          rows = [[Num 3, Str ''one.xlsx'', Stamp (clock example_world 0)]]\<rparr> \<and>
   fst (load_excel_files None (Some ''data'') None example_world) = Inr example_unified \<and>
   fst (load_excel_files (Some ''one.xlsx'') (Some ''data'') None example_world) \<noteq>
     fst (load_excel_files None (Some ''data'') None example_world)"
  by (simp add: source_eval)

text \<open>
  C7. Whenever the loader returns a table, from a single path or from a directory, the
  files it names were all read, and the table is the unified table of those files: its rows
  by name are the files' rows in order, each with its file name and ingestion time and with
  \<open>Null\<close> in the columns its file lacks (\<open>unified_rows\<close>); the number of rows is the sum of
  the files' numbers of rows; the columns are the union of the files' columns and the two
  provenance columns; and no row has a \<open>Null\<close> file name or ingestion time.
\<close>

theorem load_excel_files_unified:
  assumes ok: "fst (load_excel_files xp xd pat w) = Inr out"
      and wf: "frames_ok w"
  shows "\<exists>ts dfs. length ts = length (source_files xp xd pat w) \<and>
      map (read_excel w) (source_files xp xd pat w) = map Inr dfs \<and>
      cells_of out = unified_rows (zip (source_files xp xd pat w) (zip ts dfs)) \<and>
      length (rows out) = sum_list (map (\<lambda>df. length (rows df)) dfs) \<and>
      set (columns out) =
        (\<Union>df\<in>set dfs. set (columns df)) \<union> {''_source_file'', ''_ingestion_timestamp''} \<and>
      (\<forall>f\<in>set (cells_of out). f ''_source_file'' \<noteq> Null \<and> f ''_ingestion_timestamp'' \<noteq> Null)"
proof -
  let ?ps = "source_files xp xd pat w"
  from ok obtain w' where "load_excel_files xp xd pat w = (Inr out, w')"
    by (cases "load_excel_files xp xd pat w") auto
  from load_excel_files_reads[OF this] obtain sdfs where
    ra: "read_all ?ps w = (Inr sdfs, w')" and c: "combine sdfs = Inr out" by auto
  from read_all_ok[OF ra] obtain ts dfs where
    h: "length ts = length ?ps" "map (read_excel w) ?ps = map Inr dfs"
       "sdfs = map (\<lambda>(p, t, df). stamp (name_of p) t df) (zip ?ps (zip ts dfs))"
    by auto
  from h(2) have ld: "length dfs = length ?ps" by (metis length_map)
  have rect: "\<forall>df\<in>set dfs. rectangular df"
  proof
    fix df assume "df \<in> set dfs"
    then have "Inr df \<in> set (map (read_excel w) ?ps)" unfolding h(2) by simp
    then obtain p where "read_excel w p = Inr df" by auto
    with wf show "rectangular df" by (rule read_excel_rect)
  qed
  note sf = stamped_facts[OF h(1) ld rect, folded h(3)]
  from combine_facts[OF c] have ne: "sdfs \<noteq> []" and
    cf: "cells_of out = concat (map cells_of sdfs)"
        "set (columns out) = (\<Union>df\<in>set sdfs. set (columns df))"
        "length (rows out) = sum_list (map (\<lambda>df. length (rows df)) sdfs)" by auto
  from ne h(3) have pne: "?ps \<noteq> []" by auto
  have 1: "cells_of out = unified_rows (zip ?ps (zip ts dfs))" using cf(1) sf(1) by simp
  have 2: "length (rows out) = sum_list (map (\<lambda>df. length (rows df)) dfs)" using cf(3) sf(3) by simp
  have 3: "set (columns out) =
        (\<Union>df\<in>set dfs. set (columns df)) \<union> {''_source_file'', ''_ingestion_timestamp''}"
    using cf(2) sf(2) pne by simp
  have 4: "\<forall>f\<in>set (cells_of out). f ''_source_file'' \<noteq> Null \<and> f ''_ingestion_timestamp'' \<noteq> Null"
    unfolding 1 using unified_rows_provenance by blast
  from h(1) h(2) 1 2 3 4 show ?thesis by blast
qed

theorem load_excel_files_unified_witness:
  "fst (load_excel_files None (Some ''data'') None example_world) = Inr example_unified \<and>
   frames_ok example_world \<and>
   source_files None (Some ''data'') None example_world = [''data/a.xlsx'', ''data/b.xlsx''] \<and>
   length (rows example_unified) = 3 \<and>
   (\<exists>ts dfs. length ts = length (source_files None (Some ''data'') None example_world) \<and>
      map (read_excel example_world) (source_files None (Some ''data'') None example_world) =
        map Inr dfs \<and>
      cells_of example_unified =
        unified_rows (zip (source_files None (Some ''data'') None example_world) (zip ts dfs)) \<and>
      length (rows example_unified) = sum_list (map (\<lambda>df. length (rows df)) dfs) \<and>
      set (columns example_unified) =
        (\<Union>df\<in>set dfs. set (columns df)) \<union> {''_source_file'', ''_ingestion_timestamp''} \<and>
      (\<forall>f\<in>set (cells_of example_unified).
         f ''_source_file'' \<noteq> Null \<and> f ''_ingestion_timestamp'' \<noteq> Null))"
proof -
  have a: "fst (load_excel_files None (Some ''data'') None example_world) = Inr example_unified"
    by (simp add: source_eval)
  have b: "frames_ok example_world"
    by (simp add: frames_ok_def example_world_def rectangular_def loans_a_def loans_b_def
        loans_c_def)
  have c: "source_files None (Some ''data'') None example_world = [''data/a.xlsx'', ''data/b.xlsx'']"
    by (simp add: source_files_def source_eval)
  have d: "length (rows example_unified) = 3"
    by (simp add: example_unified_def)
  from load_excel_files_unified [OF a b] a b c d show ?thesis by blast
qed

section \<open>LayerLoader\<close>

text \<open>
  C1, as the code has it. A \<open>full_refresh\<close> load fails in two ways. If the store cannot be
  opened, no statement runs and the world, the previous table with it, is unchanged. If the
  snapshot cannot be read, \<open>DROP TABLE IF EXISTS\<close> has already run when
  \<open>CREATE TABLE ... AS\<close> raises: the store holds the database with the \<open>raw\<close> schema and
  without the table, so the previous contents are gone.
\<close>

theorem full_refresh_failure:
  assumes "fst (load_to_duckdb p dbp t ''full_refresh'' w) = Inl e"
  shows "(stores w dbp = Unreachable \<and> snd (load_to_duckdb p dbp t ''full_refresh'' w) = w) \<or>
         (\<exists>d. stores w dbp = Database d \<and> read_parquet w p = Inl e \<and>
              snd (load_to_duckdb p dbp t ''full_refresh'' w) =
                commit dbp (drop_table_if_exists (''raw'', t) (create_schema ''raw'' d)) w \<and>
              raw_table (snd (load_to_duckdb p dbp t ''full_refresh'' w)) dbp t = None)"
  using assms
  by (auto simp: load_full_refresh drop_table_if_exists_def split: store.splits sum.splits)

theorem full_refresh_failure_witness:
  "fst (load_to_duckdb ''raw_data/bad.parquet'' ''db.duckdb'' ''raw_loans'' ''full_refresh''
         stocked_world) = Inl IOException \<and>
   stores stocked_world ''db.duckdb'' = Database stocked_db \<and>
   raw_table (snd (load_to_duckdb ''raw_data/bad.parquet'' ''db.duckdb'' ''raw_loans''
                     ''full_refresh'' stocked_world)) ''db.duckdb'' ''raw_loans'' = None \<and>
   fst (load_to_duckdb ''raw_data/good.parquet'' ''locked.duckdb'' ''raw_loans'' ''full_refresh''
         stocked_world) = Inl IOException \<and>
   stores stocked_world ''locked.duckdb'' = Unreachable \<and>
   snd (load_to_duckdb ''raw_data/good.parquet'' ''locked.duckdb'' ''raw_loans'' ''full_refresh''
         stocked_world) = stocked_world"
proof -
  have a: "fst (load_to_duckdb ''raw_data/bad.parquet'' ''db.duckdb'' ''raw_loans'' ''full_refresh''
         stocked_world) = Inl IOException"
    by (simp add: loader_eval)
  have b: "fst (load_to_duckdb ''raw_data/good.parquet'' ''locked.duckdb'' ''raw_loans''
         ''full_refresh'' stocked_world) = Inl IOException"
    by (simp add: loader_eval)
  have c: "stores stocked_world ''db.duckdb'' = Database stocked_db"
          "stores stocked_world ''locked.duckdb'' = Unreachable"
    by (simp_all add: stocked_world_def)
  from full_refresh_failure [OF a] full_refresh_failure [OF b] a b c show ?thesis by auto
qed

text \<open>
  C1 as stated fails on a malformed snapshot: a table of two rows is gone after the failed
  load.
\<close>

theorem drop_before_create_counterexample:
  "raw_count stocked_world ''db.duckdb'' ''raw_loans'' = Some 2 \<and>
   fst (load_to_duckdb ''raw_data/bad.parquet'' ''db.duckdb'' ''raw_loans'' ''full_refresh''
         stocked_world) = Inl IOException \<and>
   raw_table (snd (load_to_duckdb ''raw_data/bad.parquet'' ''db.duckdb'' ''raw_loans''
                     ''full_refresh'' stocked_world)) ''db.duckdb'' ''raw_loans'' = None \<and>
   raw_count (snd (load_to_duckdb ''raw_data/bad.parquet'' ''db.duckdb'' ''raw_loans''
                     ''full_refresh'' stocked_world)) ''db.duckdb'' ''raw_loans'' = None"
  by (simp add: loader_eval)

text \<open>
  C2, as the code has it. After a successful return in one of the two modes the store was
  reachable and the snapshot readable, and the table follows the decision table:
  \<open>full_refresh\<close> leaves exactly the snapshot (created or replaced), \<open>incremental\<close> creates
  the table from the snapshot when it is absent and appends the snapshot's rows when it is
  present, so the count is the snapshot's count under replace and create and the previous
  count plus the snapshot's under append. That count is printed in the last line of the
  output; the value returned to the caller is \<open>None\<close>.
\<close>

theorem load_to_duckdb_decision_table:
  assumes ok: "fst (load_to_duckdb p dbp t m w) = Inr r"
      and m: "m = ''full_refresh'' \<or> m = ''incremental''"
  shows "\<exists>d snap. stores w dbp = Database d \<and> read_parquet w p = Inr snap \<and> r = None \<and>
     (m = ''full_refresh'' \<longrightarrow>
        raw_table (snd (load_to_duckdb p dbp t m w)) dbp t = Some snap \<and>
        raw_count (snd (load_to_duckdb p dbp t m w)) dbp t = Some (length (rows snap)) \<and>
        stdout (snd (load_to_duckdb p dbp t m w)) =
          stdout w @ [Recreated t, Total_records t (length (rows snap))]) \<and>
     (m = ''incremental'' \<and> tables d (''raw'', t) = None \<longrightarrow>
        raw_table (snd (load_to_duckdb p dbp t m w)) dbp t = Some snap \<and>
        raw_count (snd (load_to_duckdb p dbp t m w)) dbp t = Some (length (rows snap)) \<and>
        stdout (snd (load_to_duckdb p dbp t m w)) =
          stdout w @ [Created_new t, Total_records t (length (rows snap))]) \<and>
     (\<forall>old. m = ''incremental'' \<and> tables d (''raw'', t) = Some old \<longrightarrow>
        raw_table (snd (load_to_duckdb p dbp t m w)) dbp t =
          Some (old\<lparr>rows := rows old @ rows snap\<rparr>) \<and>
        raw_count (snd (load_to_duckdb p dbp t m w)) dbp t =
          Some (length (rows old) + length (rows snap)) \<and>
        stdout (snd (load_to_duckdb p dbp t m w)) =
          stdout w @ [Appended t, Total_records t (length (rows old) + length (rows snap))])"
  using m
proof
  assume fr: "m = ''full_refresh''"
  with ok show ?thesis
    by (auto simp: load_full_refresh raw_count_def split: store.splits sum.splits)
next
  assume inc: "m = ''incremental''"
  with ok show ?thesis
    by (auto simp: load_incremental raw_count_def split: store.splits sum.splits option.splits if_splits)
qed

theorem load_to_duckdb_decision_table_witness:
  "fst (load_to_duckdb ''raw_data/good.parquet'' ''db.duckdb'' ''raw_loans'' ''full_refresh''
         stocked_world) = Inr None \<and>
   raw_count (snd (load_to_duckdb ''raw_data/good.parquet'' ''db.duckdb'' ''raw_loans''
                     ''full_refresh'' stocked_world)) ''db.duckdb'' ''raw_loans'' = Some 1 \<and>
   fst (load_to_duckdb ''raw_data/good.parquet'' ''db.duckdb'' ''fresh'' ''incremental''
         stocked_world) = Inr None \<and>
   raw_count (snd (load_to_duckdb ''raw_data/good.parquet'' ''db.duckdb'' ''fresh''
                     ''incremental'' stocked_world)) ''db.duckdb'' ''fresh'' = Some 1 \<and>
   fst (load_to_duckdb ''raw_data/good.parquet'' ''db.duckdb'' ''raw_loans'' ''incremental''
         stocked_world) = Inr None \<and>
   raw_count (snd (load_to_duckdb ''raw_data/good.parquet'' ''db.duckdb'' ''raw_loans''
                     ''incremental'' stocked_world)) ''db.duckdb'' ''raw_loans'' = Some 3 \<and>
   stdout (snd (load_to_duckdb ''raw_data/good.parquet'' ''db.duckdb'' ''raw_loans''
                     ''incremental'' stocked_world)) =
     [Appended ''raw_loans'', Total_records ''raw_loans'' 3]"
proof -
  have a: "fst (load_to_duckdb ''raw_data/good.parquet'' ''db.duckdb'' ''raw_loans''
         ''full_refresh'' stocked_world) = Inr None"
    by (simp add: loader_eval)
  have b: "fst (load_to_duckdb ''raw_data/good.parquet'' ''db.duckdb'' ''fresh'' ''incremental''
         stocked_world) = Inr None"
    by (simp add: loader_eval)
  have c: "fst (load_to_duckdb ''raw_data/good.parquet'' ''db.duckdb'' ''raw_loans''
         ''incremental'' stocked_world) = Inr None"
    by (simp add: loader_eval)
  have d: "stores stocked_world ''db.duckdb'' = Database stocked_db"
    "read_parquet stocked_world ''raw_data/good.parquet'' = Inr loans_d"
    "tables stocked_db (''raw'', ''raw_loans'') = Some loans_a"
    "tables stocked_db (''raw'', ''fresh'') = None"
    "length (rows loans_a) = 2" "length (rows loans_d) = 1" "stdout stocked_world = []"
    by (simp_all add: loader_eval)
  from load_to_duckdb_decision_table [OF a] load_to_duckdb_decision_table [OF b]
    load_to_duckdb_decision_table [OF c] a b c d
  show ?thesis by auto
qed

text \<open>
  C2 as stated fails in its last part: the load succeeds and the table holds one row, but
  the value returned is \<open>None\<close>, not the count.
\<close>

theorem count_not_returned_counterexample:
  "fst (load_to_duckdb ''raw_data/good.parquet'' ''db.duckdb'' ''raw_loans'' ''full_refresh''
         stocked_world) = Inr None \<and>
   raw_count (snd (load_to_duckdb ''raw_data/good.parquet'' ''db.duckdb'' ''raw_loans''
                     ''full_refresh'' stocked_world)) ''db.duckdb'' ''raw_loans'' = Some 1 \<and>
   fst (load_to_duckdb ''raw_data/good.parquet'' ''db.duckdb'' ''raw_loans'' ''full_refresh''
         stocked_world) \<noteq>
     Inr (raw_count (snd (load_to_duckdb ''raw_data/good.parquet'' ''db.duckdb'' ''raw_loans''
                     ''full_refresh'' stocked_world)) ''db.duckdb'' ''raw_loans'')"
  by (simp add: loader_eval)

section \<open>Ingestion runs\<close>

text \<open>
  C4. Two \<open>full_refresh\<close> runs of the script in succession with the same arguments, the
  second in the world the first has left, both completing: the source data the second run
  reads is the data the first run read, and after each run the RAW table holds exactly as
  many rows as that source, so the count after the second run is the count after the first.
\<close>

theorem full_refresh_idempotent:
  assumes m: "arg_mode a = ''full_refresh''"
      and r1: "fst (main a w) = Inr ()"
      and r2: "fst (main a (snd (main a w))) = Inr ()"
  shows "\<exists>df. fst (load_excel_files (arg_excel a) (arg_excel_dir a) (arg_excel_pattern a) w) = Inr df \<and>
     raw_count (snd (main a w)) (arg_duckdb a) (arg_table a) = Some (length (rows df)) \<and>
     raw_count (snd (main a (snd (main a w)))) (arg_duckdb a) (arg_table a) =
       Some (length (rows df))"
proof -
  let ?w1 = "snd (main a w)"
  from m have m': "arg_mode a = ''full_refresh'' \<or> arg_mode a = ''incremental''" by simp
  from main_count[OF m' r1] m obtain df where
    d: "fst (load_excel_files (arg_excel a) (arg_excel_dir a) (arg_excel_pattern a) w) = Inr df"
       "raw_count ?w1 (arg_duckdb a) (arg_table a) = Some (length (rows df))" by auto
  from main_count[OF m' r2] m obtain df' where
    d': "fst (load_excel_files (arg_excel a) (arg_excel_dir a) (arg_excel_pattern a) ?w1) = Inr df'"
       "raw_count (snd (main a ?w1)) (arg_duckdb a) (arg_table a) = Some (length (rows df'))" by auto
  from main_leaves[OF r1] obtain pp df0 where
    f: "fs ?w1 = AList.update pp (Parquet df0) (with_dir (arg_raw_dir a) (fs w))"
    and fm: "fnmatch ?w1 = fnmatch w" by blast
  from same_source_rows[OF f fm d(1) d'(1)] d d' show ?thesis by simp
qed

theorem full_refresh_idempotent_witness:
  "arg_mode example_args = ''full_refresh'' \<and>
   fst (main example_args example_world) = Inr () \<and>
   fst (main example_args (snd (main example_args example_world))) = Inr () \<and>
   raw_count (snd (main example_args example_world)) ''db.duckdb'' ''raw_loans'' = Some 1 \<and>
   raw_count (snd (main example_args (snd (main example_args example_world))))
     ''db.duckdb'' ''raw_loans'' = Some 1"
proof -
  have m: "arg_mode example_args = ''full_refresh''"
    by (simp add: example_args_def)
  have a: "fst (main example_args example_world) = Inr ()"
    by (simp add: main_eval loader_eval source_eval)
  have b: "fst (main example_args (snd (main example_args example_world))) = Inr ()"
    by (simp add: main_eval loader_eval source_eval)
  have c: "arg_duckdb example_args = ''db.duckdb''" "arg_table example_args = ''raw_loans''"
    by (simp_all add: example_args_def)
  have d: "raw_count (snd (main example_args example_world)) ''db.duckdb'' ''raw_loans'' = Some 1"
    by (simp add: main_eval loader_eval source_eval)
  from full_refresh_idempotent [OF m a b] m a b d show ?thesis
    unfolding c by auto
qed



section \<open>QualityGate\<close>






section \<open>SnapshotWriter\<close>

text \<open>
  C8, as the code has it. The file name has the shape
  \<open>{table}_{mode}_{yyyymmdd}_{HHMMSS}_{8 hex digits}.parquet\<close>, and the snapshot is
  written under that name in the snapshot directory, replacing whatever file has the name.
  Two invocations with valid modes and clock readings produce the same name exactly when
  they agree on the table, the mode, the time to the second and the first eight hex digits
  of their UUIDs: only the differing random prefix keeps two snapshots of one second apart.
\<close>

theorem snapshot_filename:
  assumes m: "m = ''full_refresh'' \<or> m = ''incremental''"
      and m': "m' = ''full_refresh'' \<or> m' = ''incremental''"
      and v: "valid_datetime t" "valid_datetime t'"
  shows "(\<exists>ymd hms rnd.
            parquet_filename table m t u =
              table @ ''_'' @ m @ ''_'' @ ymd @ ''_'' @ hms @ ''_'' @ rnd @ ''.parquet'' \<and>
            length ymd = 8 \<and> length hms = 6 \<and> set (ymd @ hms) \<subseteq> set ''0123456789'' \<and>
            length rnd = 8 \<and> set rnd \<subseteq> set ''0123456789abcdef'') \<and>
         (parquet_filename table m t u = parquet_filename table' m' t' u' \<longleftrightarrow>
            table = table' \<and> m = m' \<and> same_second t t' \<and> take 8 (hex u) = take 8 (hex u')) \<and>
         (\<forall>p. fst (write_parquet_with_metadata df rd table m w) = Inr p \<longrightarrow>
            p = join rd (parquet_filename table m (clock w (ticks w))
                           (uuid_ints w (draws w) mod 2 ^ 128)) \<and>
            map_of (fs (snd (write_parquet_with_metadata df rd table m w))) p = Some (Parquet df))"
proof -
  let ?ymd = "pad4 (year t) @ pad2 (month t) @ pad2 (day t)"
  let ?hms = "pad2 (hour t) @ pad2 (minute t) @ pad2 (second t)"
  have shape: "parquet_filename table m t u =
      table @ ''_'' @ m @ ''_'' @ ?ymd @ ''_'' @ ?hms @ ''_'' @ take 8 (hex u) @ ''.parquet''"
    by (simp add: parquet_filename_def strftime_def)
  have len: "length ?ymd = 8" "length ?hms = 6"
    by (simp_all add: pad2_def pad4_def)
  have "set (?ymd @ ?hms) \<subseteq> range digit"
    by (auto simp: pad2_def pad4_def)
  moreover have "range digit \<subseteq> set ''0123456789''"
    using digit_in by blast
  ultimately have digits: "set (?ymd @ ?hms) \<subseteq> set ''0123456789''"
    by (rule subset_trans)
  have 1: "\<exists>ymd hms rnd.
            parquet_filename table m t u =
              table @ ''_'' @ m @ ''_'' @ ymd @ ''_'' @ hms @ ''_'' @ rnd @ ''.parquet'' \<and>
            length ymd = 8 \<and> length hms = 6 \<and> set (ymd @ hms) \<subseteq> set ''0123456789'' \<and>
            length rnd = 8 \<and> set rnd \<subseteq> set ''0123456789abcdef''"
    using shape len digits length_hex8[of u] set_hex8[of u] by blast
  have 2: "parquet_filename table m t u = parquet_filename table' m' t' u' \<longleftrightarrow>
            table = table' \<and> m = m' \<and> same_second t t' \<and> take 8 (hex u) = take 8 (hex u')"
    unfolding filename_eq[OF m m'] strftime_eq[OF v] ..
  have 3: "p = join rd (parquet_filename table m (clock w (ticks w))
                           (uuid_ints w (draws w) mod 2 ^ 128)) \<and>
            map_of (fs (snd (write_parquet_with_metadata df rd table m w))) p = Some (Parquet df)"
    if p: "fst (write_parquet_with_metadata df rd table m w) = Inr p" for p
  proof -
    obtain w2 where e: "write_parquet_with_metadata df rd table m w = (Inr p, w2)"
      using p by (cases "write_parquet_with_metadata df rd table m w") auto
    from write_parquet_ok(1)[OF e] have "map_of (fs w2) p = Some (Parquet df)"
      by (simp add: update_conv')
    with write_parquet_path[OF p] e show ?thesis by simp
  qed
  from 1 2 3 show ?thesis by blast
qed

theorem snapshot_filename_witness:
  "valid_datetime (clock example_world 0) \<and> valid_datetime (clock example_world 1) \<and>
   same_second (clock example_world 0) (clock example_world 1) \<and>
   clock example_world 0 \<noteq> clock example_world 1 \<and>
   take 8 (hex (uuid_ints example_world 0)) = take 8 (hex (uuid_ints example_world 1)) \<and>
   parquet_filename ''raw_loans'' ''full_refresh'' (clock example_world 0) (uuid_ints example_world 0)
     = ''raw_loans_full_refresh_20250309_140507_1a2b3c4d.parquet'' \<and>
   parquet_filename ''raw_loans'' ''full_refresh'' (clock example_world 0) (uuid_ints example_world 0)
     = parquet_filename ''raw_loans'' ''full_refresh'' (clock example_world 1)
         (uuid_ints example_world 1) \<and>
   parquet_filename ''raw_loans'' ''full_refresh'' (clock example_world 0) (uuid_ints example_world 0)
     \<noteq> parquet_filename ''raw_loans'' ''incremental'' (clock example_world 0)
         (uuid_ints example_world 0)"
proof -
  have v: "valid_datetime (clock example_world 0)" "valid_datetime (clock example_world 1)"
    by (simp_all add: valid_datetime_def example_world_def)
  have s: "same_second (clock example_world 0) (clock example_world 1)"
    "clock example_world 0 \<noteq> clock example_world 1"
    by (simp_all add: same_second_def example_world_def)
  have h: "take 8 (hex (uuid_ints example_world 0)) = take 8 (hex (uuid_ints example_world 1))"
    by (simp add: take8_hex hexdigit_def example_world_def)
  have n: "parquet_filename ''raw_loans'' ''full_refresh'' (clock example_world 0)
      (uuid_ints example_world 0) = ''raw_loans_full_refresh_20250309_140507_1a2b3c4d.parquet''"
    by (simp add: parquet_filename_def strftime_def pad2_def pad4_def digit_def take8_hex
        hexdigit_def example_world_def)
  have f: "''full_refresh'' = ''full_refresh'' \<or> ''full_refresh'' = ''incremental''" by simp
  have i: "''incremental'' = ''full_refresh'' \<or> ''incremental'' = ''incremental''" by simp
  from snapshot_filename [OF f f v, of "''raw_loans''" "uuid_ints example_world 0" "''raw_loans''"
      "uuid_ints example_world 1"]
    snapshot_filename [OF f i v(1) v(1), of "''raw_loans''" "uuid_ints example_world 0"
      "''raw_loans''" "uuid_ints example_world 0"]
    v s h n
  show ?thesis by simp
qed

text \<open>
  C8 as stated fails where two invocations of one second draw UUIDs with the same first
  eight hex digits: both snapshots get the same path, and the second write replaces the
  first snapshot.
\<close>

theorem filename_collision_counterexample:
  "uuid_ints example_world 0 \<noteq> uuid_ints example_world 1 \<and>
   fst (write_parquet_with_metadata loans_a ''raw_data'' ''raw_loans'' ''full_refresh''
          example_world) =
     Inr ''raw_data/raw_loans_full_refresh_20250309_140507_1a2b3c4d.parquet'' \<and>
   map_of (fs (snd (write_parquet_with_metadata loans_a ''raw_data'' ''raw_loans''
                      ''full_refresh'' example_world)))
     ''raw_data/raw_loans_full_refresh_20250309_140507_1a2b3c4d.parquet'' =
     Some (Parquet loans_a) \<and>
   fst (write_parquet_with_metadata loans_c ''raw_data'' ''raw_loans'' ''full_refresh''
          (snd (write_parquet_with_metadata loans_a ''raw_data'' ''raw_loans''
                  ''full_refresh'' example_world))) =
     Inr ''raw_data/raw_loans_full_refresh_20250309_140507_1a2b3c4d.parquet'' \<and>
   map_of (fs (snd (write_parquet_with_metadata loans_c ''raw_data'' ''raw_loans''
                      ''full_refresh''
                      (snd (write_parquet_with_metadata loans_a ''raw_data'' ''raw_loans''
                              ''full_refresh'' example_world)))))
     ''raw_data/raw_loans_full_refresh_20250309_140507_1a2b3c4d.parquet'' =
     Some (Parquet loans_c)"
  by (simp add: main_eval now_def example_world_def loans_a_def loans_c_def)

section \<open>Mirror upload\<close>

text \<open>
  C9, as the code has it. An upload that cannot be made (boto3 missing, no bucket, or the
  object store refusing the copy) raises and leaves the world, the local snapshot with it,
  as it was. The script run with \<open>--prod\<close> and such an upload fails, without touching the
  store or the object store; its bucket is the flag's, else the environment's. The
  pipeline function \<open>run_ingestion\<close> passes \<open>--prod\<close> exactly when the environment is
  \<open>production\<close> and names a bucket: with a bucket and a failing upload it raises
  \<open>CalledProcessError\<close>; in production without a bucket it runs the script without
  \<open>--prod\<close>, and nothing is uploaded.
\<close>

theorem mirror_upload_failure:
  "(\<not> boto3 w \<or> b = [] \<or> \<not> s3_accepts w b \<longrightarrow>
      fst (upload_to_s3 pp b pre w) =
        Inl (if \<not> boto3 w
             then RuntimeError ''boto3 not installed. Install boto3 or remove --prod''
             else if b = []
             then ValueError ''Missing --s3_bucket (or env RAW_S3_BUCKET) for --prod''
             else if map_of (fs w) pp = None then FileNotFoundError pp
             else S3UploadFailedError) \<and>
      snd (upload_to_s3 pp b pre w) = w) \<and>
   (opt_prod c \<and>
    (\<not> boto3 w \<or> resolved_bucket w c = [] \<or> \<not> s3_accepts w (resolved_bucket w c)) \<longrightarrow>
      (\<exists>e. fst (ingest_script c w) = Inl e) \<and>
      stores (snd (ingest_script c w)) = stores w \<and> s3 (snd (ingest_script c w)) = s3 w) \<and>
   (opt_prod (ingestion_cmd pm w) \<longleftrightarrow>
      getenv w ''ENVIRONMENT'' = Some ''production'' \<and> given (getenv w ''RAW_S3_BUCKET'') \<noteq> None) \<and>
   (getenv w ''ENVIRONMENT'' = Some ''production'' \<and>
    given (getenv w ''RAW_S3_BUCKET'') = Some bucket \<and> (\<not> boto3 w \<or> \<not> s3_accepts w bucket) \<longrightarrow>
      (\<exists>n. fst (run_ingestion pm w) = Inl (CalledProcessError n)) \<and>
      stores (snd (run_ingestion pm w)) = stores w \<and> s3 (snd (run_ingestion pm w)) = s3 w) \<and>
   (getenv w ''ENVIRONMENT'' = Some ''production'' \<and> given (getenv w ''RAW_S3_BUCKET'') = None \<longrightarrow>
      \<not> opt_prod (ingestion_cmd pm w) \<and> s3 (snd (run_ingestion pm w)) = s3 w)"
proof -
  have 1: "fst (upload_to_s3 pp b pre w) =
        Inl (if \<not> boto3 w
             then RuntimeError ''boto3 not installed. Install boto3 or remove --prod''
             else if b = []
             then ValueError ''Missing --s3_bucket (or env RAW_S3_BUCKET) for --prod''
             else if map_of (fs w) pp = None then FileNotFoundError pp
             else S3UploadFailedError) \<and>
      snd (upload_to_s3 pp b pre w) = w"
    if "\<not> boto3 w \<or> b = [] \<or> \<not> s3_accepts w b"
    using upload_fails[OF that, of pp pre] by auto
  have 2: "(\<exists>e. fst (ingest_script c w) = Inl e) \<and>
      stores (snd (ingest_script c w)) = stores w \<and> s3 (snd (ingest_script c w)) = s3 w"
    if "opt_prod c"
      "\<not> boto3 w \<or> resolved_bucket w c = [] \<or> \<not> s3_accepts w (resolved_bucket w c)"
    using script_prod_fails[OF that] by blast
  note 3 = cmd_prod[of pm w]
  have 4: "(\<exists>n. fst (run_ingestion pm w) = Inl (CalledProcessError n)) \<and>
      stores (snd (run_ingestion pm w)) = stores w \<and> s3 (snd (run_ingestion pm w)) = s3 w"
    if "getenv w ''ENVIRONMENT'' = Some ''production''"
      "given (getenv w ''RAW_S3_BUCKET'') = Some bucket" "\<not> boto3 w \<or> \<not> s3_accepts w bucket"
    using run_ingestion_prod_fails[OF that] by blast
  have 5: "\<not> opt_prod (ingestion_cmd pm w) \<and> s3 (snd (run_ingestion pm w)) = s3 w"
    if "getenv w ''ENVIRONMENT'' = Some ''production''" "given (getenv w ''RAW_S3_BUCKET'') = None"
    using run_ingestion_skips[OF that] that by (simp add: cmd_prod)
  from 1 2 3 4 5 show ?thesis by blast
qed

theorem mirror_upload_failure_witness:
  "fst (upload_to_s3 ''one.xlsx'' [] ''raw/loans'' example_world) =
     Inl (ValueError ''Missing --s3_bucket (or env RAW_S3_BUCKET) for --prod'') \<and>
   snd (upload_to_s3 ''one.xlsx'' [] ''raw/loans'' example_world) = example_world \<and>
   opt_prod publish_cmd \<and> resolved_bucket example_world publish_cmd = [] \<and>
   fst (ingest_script publish_cmd example_world) =
     Inl (ValueError ''Missing --s3_bucket (or env RAW_S3_BUCKET) for --prod'') \<and>
   stores (snd (ingest_script publish_cmd example_world)) = stores example_world \<and>
   s3 (snd (ingest_script publish_cmd example_world)) = s3 example_world \<and>
   getenv (prod_world_bucket ''elsewhere'') ''ENVIRONMENT'' = Some ''production'' \<and>
   given (getenv (prod_world_bucket ''elsewhere'') ''RAW_S3_BUCKET'') = Some ''elsewhere'' \<and>
   opt_prod (ingestion_cmd None (prod_world_bucket ''elsewhere'')) \<and>
   fst (run_ingestion None (prod_world_bucket ''elsewhere'')) = Inl (CalledProcessError 1) \<and>
   stores (snd (run_ingestion None (prod_world_bucket ''elsewhere''))) =
     stores (prod_world_bucket ''elsewhere'') \<and>
   getenv prod_world ''ENVIRONMENT'' = Some ''production'' \<and>
   given (getenv prod_world ''RAW_S3_BUCKET'') = None \<and>
   s3 (snd (run_ingestion None prod_world)) = s3 prod_world"
proof -
  have a: "\<not> boto3 example_world \<or> ([]::string) = [] \<or> \<not> s3_accepts example_world []"
    by simp
  have b: "boto3 example_world" by (simp add: example_world_def)
  have c: "opt_prod publish_cmd" "resolved_bucket example_world publish_cmd = []"
    by (simp_all add: run_eval example_world_def)
  have d: "fst (ingest_script publish_cmd example_world) =
     Inl (ValueError ''Missing --s3_bucket (or env RAW_S3_BUCKET) for --prod'')"
    by (simp add: run_eval main_eval loader_eval source_eval)
  have e: "getenv (prod_world_bucket ''elsewhere'') ''ENVIRONMENT'' = Some ''production''"
    "given (getenv (prod_world_bucket ''elsewhere'') ''RAW_S3_BUCKET'') = Some ''elsewhere''"
    "\<not> s3_accepts (prod_world_bucket ''elsewhere'') ''elsewhere''"
    by (simp_all add: run_eval example_world_def)
  have f: "fst (run_ingestion None (prod_world_bucket ''elsewhere'')) = Inl (CalledProcessError 1)"
    by (simp add: run_eval main_eval loader_eval source_eval)
  have g: "getenv prod_world ''ENVIRONMENT'' = Some ''production''"
    "given (getenv prod_world ''RAW_S3_BUCKET'') = None"
    by (simp_all add: run_eval example_world_def)
  from mirror_upload_failure
         [where w = example_world and b = "[]" and pp = "''one.xlsx''" and pre = "''raw/loans''"
            and c = publish_cmd and pm = None and bucket = "''elsewhere''"]
       mirror_upload_failure
         [where w = "prod_world_bucket ''elsewhere''" and b = "[]" and c = publish_cmd
            and pm = None and bucket = "''elsewhere''"]
       mirror_upload_failure
         [where w = prod_world and b = "[]" and c = publish_cmd and pm = None
            and bucket = "''elsewhere''"]
       a b c d e f g
  show ?thesis by simp
qed

text \<open>
  C9 as stated fails in \<open>run_ingestion\<close>: in production with no bucket in the environment
  the ingestion succeeds and nothing is mirrored.
\<close>

theorem silent_skip_counterexample:
  "getenv prod_world ''ENVIRONMENT'' = Some ''production'' \<and>
   getenv prod_world ''RAW_S3_BUCKET'' = None \<and>
   fst (run_ingestion None prod_world) = Inr True \<and>
   s3 (snd (run_ingestion None prod_world)) = [] \<and>
   raw_count (snd (run_ingestion None prod_world)) ''/repo/dbt/data_challenge.duckdb''
     ''raw_loans'' = Some 2"
  by (simp add: run_eval main_eval loader_eval source_eval)

end
